theory Spec2Isabelle
  imports Complex_Main "HOL-Library.AList"
begin

section \<open>The MLPerf callback of composer (composer/callbacks/mlperf.py)\<close>

text \<open>
  The module is a training-loop callback: each lifecycle hook emits log events through the
  MLPerf logger, touches the file system and changes two fields of the callback object.
  The hooks are embedded as functions from the callback object and an explicit world (file
  system, handler objects, the logger's handlers, the sequence of completed external
  calls) to an optional exception, the callback object and the world afterwards. What a
  hook did before it raised stays in the returned object and world, as in Python.
\<close>

subsection \<open>Python values\<close>

text \<open>
  A Python float is a finite rational, an infinity or not-a-number; only the comparison
  \<^verbatim>\<open>>\<close> of the source is needed, which is exact on finite floats and false whenever
  one side is not-a-number.
\<close>

datatype pyfloat = Finite rat | PosInf | NegInf | NaN

fun py_gt :: "pyfloat \<Rightarrow> pyfloat \<Rightarrow> bool" where
  "py_gt NaN y = False"
| "py_gt x NaN = False"
| "py_gt (Finite a) (Finite b) = (b < a)"
| "py_gt (Finite a) PosInf = False"
| "py_gt (Finite a) NegInf = True"
| "py_gt PosInf PosInf = False"
| "py_gt PosInf y = True"
| "py_gt NegInf y = False"

datatype pyval = PNone | PStr string | PInt int | PFloat pyfloat

datatype py_error =
    ImportError | ValueError | TypeError | KeyError | IndexError | ZeroDivisionError
  | FileExistsError | FileNotFoundError | IsADirectoryError | NotADirectoryError
  | CalledProcessError | PermissionError

text \<open>\<^verbatim>\<open>str(n)\<close> of an integer: its decimal digits, with a minus sign when negative.\<close>

definition digit_char :: "nat \<Rightarrow> char" where
  "digit_char d = ''0123456789'' ! d"

fun str_nat :: "nat \<Rightarrow> string" where
  "str_nat n = (if n < 10 then [digit_char n] else str_nat (n div 10) @ [digit_char (n mod 10)])"

declare str_nat.simps [simp del]

definition str_int :: "int \<Rightarrow> string" where
  "str_int i = (if i < 0 then CHR ''-'' # str_nat (nat (- i)) else str_nat (nat i))"

text \<open>\<^verbatim>\<open>s.replace(' ', '_')\<close>.\<close>

definition replace_space :: "string \<Rightarrow> string" where
  "replace_space s = map (\<lambda>c. if c = CHR '' '' then CHR ''_'' else c) s"

text \<open>
  \<^verbatim>\<open>os.path.join\<close> on a POSIX system, one component at a time: a component that starts
  with the separator replaces the path built so far; otherwise it is appended, after a
  separator unless the path is empty or already ends with one.
\<close>

definition startswith_sep :: "string \<Rightarrow> bool" where
  "startswith_sep b = (b \<noteq> [] \<and> hd b = CHR ''/'')"

definition join2 :: "string \<Rightarrow> string \<Rightarrow> string" where
  "join2 path b =
     (if startswith_sep b then b
      else if path = [] \<or> last path = CHR ''/'' then path @ b
      else path @ ''/'' @ b)"

definition path_join :: "string \<Rightarrow> string list \<Rightarrow> string" where
  "path_join a p = foldl join2 a p"

text \<open>
  The folders above a path, outermost first: for every separator of the path, the text up
  to and including it, without its trailing separators unless it consists of separators
  only. The last of them is \<^verbatim>\<open>os.path.dirname\<close> of the path.
\<close>

definition rstrip_sep :: "string \<Rightarrow> string" where
  "rstrip_sep s = rev (dropWhile (\<lambda>c. c = CHR ''/'') (rev s))"

definition norm_head :: "string \<Rightarrow> string" where
  "norm_head h = (if list_all (\<lambda>c. c = CHR ''/'') h then h else rstrip_sep h)"

fun heads :: "string \<Rightarrow> string \<Rightarrow> string list" where
  "heads acc [] = []"
| "heads acc (c # cs) =
     (if c = CHR ''/'' then norm_head (acc @ [c]) # heads (acc @ [c]) cs
      else heads (acc @ [c]) cs)"

definition ancestors :: "string \<Rightarrow> string list" where
  "ancestors p = heads [] p"

definition dirname :: "string \<Rightarrow> string" where
  "dirname p = (case ancestors p of [] \<Rightarrow> [] | a # as \<Rightarrow> last (a # as))"

subsection \<open>The environment of one process\<close>

datatype node = Dir | File

type_synonym filesystem = "string \<rightharpoonup> node"

text \<open>
  Everything the module reads from its collaborators: the distributed ranks and sizes
  (\<^verbatim>\<open>composer.utils.dist\<close>), what the other processes did to the file system by the
  time a barrier returns, the exception the cache-clearing command ends with if any,
  whether the MLPerf logging packages were importable, the float that Python's true
  division returns for an exact quotient, and the system introspection that
  \<^verbatim>\<open>get_system_description\<close> calls.
\<close>

record env =
  global_rank :: int
  local_rank :: int
  world_size :: int
  local_world_size :: int
  barrier_fs :: "filesystem \<Rightarrow> filesystem"
  subprocess_error :: "string list \<Rightarrow> py_error option"
  round_float :: "rat \<Rightarrow> pyfloat"
  mlperf_available :: bool
  cuda_is_available :: bool
  cuda_device_name :: string
  cuda_version :: string
  cpu_brand_raw :: "string option"
  cpu_count :: "int option"
  torch_version :: string
  composer_version :: string
  sys_version :: string
  platform_system :: string
  platform_release :: string

definition rank_zero :: "env \<Rightarrow> bool" where
  "rank_zero e = (global_rank e = 0)"

subsection \<open>The world: file system, handlers, completed external calls\<close>

datatype mlkey =
    CACHE_CLEAR | INIT_START | INIT_STOP | RUN_START | RUN_STOP
  | EPOCH_START | EPOCH_STOP | BLOCK_START | BLOCK_STOP
  | EVAL_START | EVAL_STOP | EVAL_ACCURACY
  | SUBMISSION_BENCHMARK | SUBMISSION_DIVISION | SUBMISSION_ORG
  | SUBMISSION_PLATFORM | SUBMISSION_STATUS
  | SEED | GLOBAL_BATCH_SIZE | GRADIENT_ACCUMULATION_STEPS | TRAIN_SAMPLES | EVAL_SAMPLES

text \<open>\<^verbatim>\<open>mllogger.start\<close> logs an interval start, \<^verbatim>\<open>mllogger.event\<close> a point in time.\<close>

datatype mlkind = IntervalStart | PointInTime

datatype jval = JStr string | JNum pyfloat | JNone | JDict "(string \<times> jval) list"

type_synonym sysdesc = "(string \<times> jval) list"

datatype effect =
    Makedirs string
  | OpenWrite string sysdesc
  | OpenAppend string
  | Barrier
  | SubprocessRun "string list"
  | Warn string
  | MLLog mlkind mlkey pyval "(string \<times> pyval) list option"
  | FileArtifact string string

record file_handler_obj =
  fh_path :: string
  fh_level :: nat
  fh_closed :: bool

text \<open>
  \<open>fs\<close> maps path strings to node kinds; paths are told apart as strings, so
  \<^verbatim>\<open>..\<close> and repeated separators are not resolved. \<open>fh_objs\<close> holds the
  \<^verbatim>\<open>logging.FileHandler\<close> objects by reference, \<open>mll_handlers\<close> the references in
  \<^verbatim>\<open>mllogger.logger.handlers\<close> (the library keeps that list free of duplicates), and
  \<open>trace\<close> the external calls that completed, oldest first.
\<close>

record world =
  fs :: filesystem
  fh_objs :: "nat \<rightharpoonup> file_handler_obj"
  next_ref :: nat
  mll_handlers :: "nat set"
  trace :: "effect list"

definition emit :: "effect \<Rightarrow> world \<Rightarrow> world" where
  "emit e w = w\<lparr>trace := trace w @ [e]\<rparr>"

text \<open>The calls a hook made: what it appended to the trace.\<close>

definition new_effects :: "world \<Rightarrow> world \<Rightarrow> effect list" where
  "new_effects w w' = drop (length (trace w)) (trace w')"

fun is_mllog :: "effect \<Rightarrow> bool" where
  "is_mllog (MLLog k key v m) = True"
| "is_mllog e = False"

fun is_event :: "effect \<Rightarrow> bool" where
  "is_event (MLLog PointInTime key v m) = True"
| "is_event e = False"

fun is_artifact :: "effect \<Rightarrow> bool" where
  "is_artifact (FileArtifact n p) = True"
| "is_artifact e = False"

definition mll_start :: "mlkey \<Rightarrow> world \<Rightarrow> world" where
  "mll_start key w = emit (MLLog IntervalStart key PNone None) w"

definition mll_event :: "mlkey \<Rightarrow> pyval \<Rightarrow> (string \<times> pyval) list option \<Rightarrow> world \<Rightarrow> world" where
  "mll_event key v md w = emit (MLLog PointInTime key v md) w"

definition file_artifact :: "string \<Rightarrow> string \<Rightarrow> world \<Rightarrow> world" where
  "file_artifact artifact_name file_path w = emit (FileArtifact artifact_name file_path) w"

definition warn :: "string \<Rightarrow> world \<Rightarrow> world" where
  "warn msg w = emit (Warn msg) w"

text \<open>
  \<^verbatim>\<open>os.makedirs(p, exist_ok=True)\<close> raises for the empty path, when \<open>p\<close> names a
  regular file and when a folder above \<open>p\<close> is a regular file; otherwise \<open>p\<close> and every
  folder above it are directories afterwards.
\<close>

definition makedirs :: "string \<Rightarrow> world \<Rightarrow> py_error option \<times> world" where
  "makedirs p w =
     (if p = [] then (Some FileNotFoundError, w)
      else if fs w p = Some File then (Some FileExistsError, w)
      else if list_ex (\<lambda>a. fs w a = Some File) (ancestors p) then (Some NotADirectoryError, w)
      else (None,
            emit (Makedirs p)
              (w\<lparr>fs := foldl (\<lambda>f q. f(q \<mapsto> Dir)) (fs w) (ancestors p @ [p])\<rparr>)))"

text \<open>
  Opening \<open>p\<close> for writing or appending raises when \<open>p\<close> is empty or a directory and
  when the folder \<open>p\<close> lies in is missing or a regular file; a path without a folder
  part lies in the working directory.
\<close>

definition open_error :: "filesystem \<Rightarrow> string \<Rightarrow> py_error option" where
  "open_error f p =
     (if p = [] then Some FileNotFoundError
      else if f p = Some Dir then Some IsADirectoryError
      else if dirname p = [] then None
      else (case f (dirname p) of
              None \<Rightarrow> Some FileNotFoundError
            | Some File \<Rightarrow> Some NotADirectoryError
            | Some Dir \<Rightarrow> None))"

text \<open>\<^verbatim>\<open>with open(p, 'w') as f: json.dump(d, f, indent=4)\<close>.\<close>

definition open_write_json :: "string \<Rightarrow> sysdesc \<Rightarrow> world \<Rightarrow> py_error option \<times> world" where
  "open_write_json p d w =
     (case open_error (fs w) p of
        Some err \<Rightarrow> (Some err, w)
      | None \<Rightarrow> (None, emit (OpenWrite p d) (w\<lparr>fs := (fs w)(p \<mapsto> File)\<rparr>)))"

definition path_exists :: "world \<Rightarrow> string \<Rightarrow> bool" where
  "path_exists w p = (fs w p \<noteq> None)"

definition barrier :: "env \<Rightarrow> world \<Rightarrow> world" where
  "barrier e w = emit Barrier (w\<lparr>fs := barrier_fs e (fs w)\<rparr>)"

text \<open>
  \<^verbatim>\<open>logging.FileHandler(p)\<close> opens \<open>p\<close> for appending, which creates the file or
  raises, and returns a new handler object of level NOTSET.
\<close>

definition new_FileHandler :: "string \<Rightarrow> world \<Rightarrow> (py_error + nat) \<times> world" where
  "new_FileHandler p w =
     (case open_error (fs w) p of
        Some err \<Rightarrow> (Inl err, w)
      | None \<Rightarrow>
          (Inr (next_ref w),
           emit (OpenAppend p)
             (w\<lparr>fs := (fs w)(p \<mapsto> File),
                fh_objs := (fh_objs w)(next_ref w \<mapsto>
                             \<lparr>fh_path = p, fh_level = 0, fh_closed = False\<rparr>),
                next_ref := Suc (next_ref w)\<rparr>)))"

definition setLevel :: "nat \<Rightarrow> nat \<Rightarrow> world \<Rightarrow> world" where
  "setLevel h lvl w =
     (case fh_objs w h of
        None \<Rightarrow> w
      | Some ob \<Rightarrow> w\<lparr>fh_objs := (fh_objs w)(h \<mapsto> ob\<lparr>fh_level := lvl\<rparr>)\<rparr>)"

definition addHandler :: "nat \<Rightarrow> world \<Rightarrow> world" where
  "addHandler h w = w\<lparr>mll_handlers := insert h (mll_handlers w)\<rparr>"

text \<open>\<^verbatim>\<open>removeHandler(None)\<close> finds nothing to remove.\<close>

definition removeHandler :: "nat option \<Rightarrow> world \<Rightarrow> world" where
  "removeHandler h w =
     (case h of None \<Rightarrow> w | Some r \<Rightarrow> w\<lparr>mll_handlers := mll_handlers w - {r}\<rparr>)"

definition close_handler :: "nat \<Rightarrow> world \<Rightarrow> world" where
  "close_handler h w =
     (case fh_objs w h of
        None \<Rightarrow> w
      | Some ob \<Rightarrow> w\<lparr>fh_objs := (fh_objs w)(h \<mapsto> ob\<lparr>fh_closed := True\<rparr>)\<rparr>)"

text \<open>
  \<^verbatim>\<open>subprocess.run(cmd, check=True, text=True)\<close>: the command completes, or the call
  raises what the environment says (a missing executable, a non-zero exit status).
\<close>

definition subprocess_run :: "env \<Rightarrow> string list \<Rightarrow> world \<Rightarrow> py_error option \<times> world" where
  "subprocess_run e cmd w =
     (case subprocess_error e cmd of
        Some err \<Rightarrow> (Some err, w)
      | None \<Rightarrow> (None, emit (SubprocessRun cmd) w))"

text \<open>Sequencing of statements that may raise: the first exception ends the block.\<close>

definition and_then ::
  "py_error option \<times> world \<Rightarrow> (world \<Rightarrow> py_error option \<times> world) \<Rightarrow> py_error option \<times> world" where
  "and_then r f = (case r of (Some e, w) \<Rightarrow> (Some e, w) | (None, w) \<Rightarrow> f w)"

subsection \<open>The system description\<close>

definition host_processor_model_name :: "env \<Rightarrow> string" where
  "host_processor_model_name e = (case cpu_brand_raw e of None \<Rightarrow> ''CPU'' | Some s \<Rightarrow> s)"

definition accelerator_model_name :: "env \<Rightarrow> string" where
  "accelerator_model_name e = (if cuda_is_available e then cuda_device_name e else [])"

text \<open>
  The true division of the two sizes: the float of their exact quotient. The sizes are
  far below the range of floats, so the overflow error of the division is left out.
\<close>

definition number_of_nodes :: "env \<Rightarrow> pyfloat" where
  "number_of_nodes e = round_float e (of_int (world_size e) / of_int (local_world_size e))"

text \<open>The dictionary literal of \<^verbatim>\<open>get_system_description\<close>, in the order of the source.\<close>

definition system_desc_literal :: "env \<Rightarrow> string \<Rightarrow> string \<Rightarrow> string \<Rightarrow> sysdesc" where
  "system_desc_literal e submitter' division' status' =
     [(''submitter'', JStr submitter'),
      (''division'', JStr division'),
      (''status'', JStr status'),
      (''number_of_nodes'', JNum (number_of_nodes e)),
      (''host_processors_per_node'', JStr []),
      (''host_processor_model_name'', JStr (host_processor_model_name e)),
      (''host_processor_core_count'',
         JStr (case cpu_count e of None \<Rightarrow> ''None'' | Some n \<Rightarrow> str_int n)),
      (''host_processor_vcpu_count'', JStr []),
      (''host_processor_frequency'', JStr []),
      (''host_processor_caches'', JStr []),
      (''host_processor_interconnect'', JStr []),
      (''host_memory_capacity'', JStr []),
      (''host_storage_type'', JStr []),
      (''host_storage_capacity'', JStr []),
      (''host_networking'', JStr []),
      (''host_networking_topology'', JStr []),
      (''host_memory_configuration'', JStr []),
      (''accelerators_per_node'',
         JStr (if cuda_is_available e then str_int (local_world_size e) else ''0'')),
      (''accelerator_model_name'', JStr (accelerator_model_name e)),
      (''accelerator_host_interconnect'', JStr []),
      (''accelerator_frequency'', JStr []),
      (''accelerator_on-chip_memories'', JStr []),
      (''accelerator_memory_configuration'', JStr []),
      (''accelerator_memory_capacity'', JStr []),
      (''accelerator_interconnect'', JStr []),
      (''accelerator_interconnect_topology'', JStr []),
      (''cooling'', JStr []),
      (''hw_notes'', JStr []),
      (''framework'',
         JStr (''PyTorch v'' @ torch_version e @ '' and MosaicML composer v'' @ composer_version e)),
      (''other_software_stack'',
         JDict [(''cuda_version'', JStr (if cuda_is_available e then cuda_version e else [])),
                (''composer_version'', JStr (composer_version e)),
                (''python_version'', JStr (sys_version e))]),
      (''operating_system'', JStr (platform_system e @ '' '' @ platform_release e)),
      (''sw_notes'', JStr [])]"

text \<open>
  \<^verbatim>\<open>get_system_description\<close>. The true division of the two sizes raises when the local
  world size is zero. Assigning the key
  \<^verbatim>\<open>'system_name'\<close> replaces an entry of that name or adds one at the end.
\<close>

definition get_system_description ::
  "env \<Rightarrow> string \<Rightarrow> string \<Rightarrow> string \<Rightarrow> string option \<Rightarrow> world \<Rightarrow> (py_error + sysdesc) \<times> world" where
  "get_system_description e submitter' division' status' system_name' w =
     (if local_world_size e = 0 then (Inl ZeroDivisionError, w)
      else
        let system_desc' = system_desc_literal e submitter' division' status';
            w1 = (if number_of_nodes e \<noteq> Finite 1
                  then warn ''Number of nodes > 1 not tested, proceed with caution.'' w
                  else w);
            name =
              (case system_name' of
                 None \<Rightarrow>
                   let device_name =
                         (if cuda_is_available e then accelerator_model_name e
                          else host_processor_model_name e)
                   in str_int (world_size e) @ ''x'' @ replace_space device_name @ ''_composer''
               | Some n \<Rightarrow> n)
        in (Inr (AList.update ''system_name'' (JStr name) system_desc'), w1))"

subsection \<open>The callback object and its constructor\<close>

definition BENCHMARKS :: "string list" where
  "BENCHMARKS = [''resnet'']"

definition DIVISIONS :: "string list" where
  "DIVISIONS = [''open'']"

definition STATUS :: "string list" where
  "STATUS = [''onprem'', ''cloud'', ''preview'']"

text \<open>
  The instance fields set by \<^verbatim>\<open>__init__\<close>. \<open>file_handler\<close> is
  \<^verbatim>\<open>self._file_handler\<close>, a reference into \<open>fh_objs\<close> or \<^verbatim>\<open>None\<close>;
  \<^verbatim>\<open>self.mllogger\<close> is the one global MLPerf logger, whose state is in the world.
\<close>

record callback =
  target :: pyfloat
  benchmark :: string
  division :: string
  submitter :: string
  status :: string
  cache_clear_cmd :: "string list option"
  root_folder :: string
  metric_name :: string
  metric_label :: string
  file_handler :: "nat option"
  system_desc :: sysdesc
  system_name :: string
  systems_path :: string
  filename :: string
  upload_name :: string
  system_desc_upload_name :: string
  success :: bool

text \<open>\<^verbatim>\<open>MLPerfCallback.__init__\<close>, with its arguments in the order of the source.\<close>

definition MLPerfCallback ::
  "env \<Rightarrow> string \<Rightarrow> int \<Rightarrow> string \<Rightarrow> pyfloat \<Rightarrow> string \<Rightarrow> string \<Rightarrow> string \<Rightarrow> string \<Rightarrow>
   string option \<Rightarrow> string \<Rightarrow> string list option \<Rightarrow> world \<Rightarrow> (py_error + callback) \<times> world" where
  "MLPerfCallback e root_folder' index benchmark' target' division' metric_name' metric_label'
       submitter' system_name' status' cache_clear_cmd' w =
     (if \<not> mlperf_available e then (Inl ImportError, w)
      else if benchmark' \<notin> set BENCHMARKS then (Inl ValueError, w)
      else if division' \<notin> set DIVISIONS then (Inl ValueError, w)
      else if status' \<notin> set STATUS then (Inl ValueError, w)
      else
        (case get_system_description e submitter' division' status' system_name' w of
           (Inl err, w1) \<Rightarrow> (Inl err, w1)
         | (Inr desc, w1) \<Rightarrow>
             (case (case system_name' of
                      Some n \<Rightarrow> Inr n
                    | None \<Rightarrow>
                        (case map_of desc ''system_name'' of
                           Some (JStr n) \<Rightarrow> Inr n
                         | _ \<Rightarrow> Inl KeyError)) of
                Inl err \<Rightarrow> (Inl err, w1)
              | Inr name \<Rightarrow>
                  (Inr \<lparr>target = target',
                        benchmark = benchmark',
                        division = division',
                        submitter = submitter',
                        status = status',
                        cache_clear_cmd = cache_clear_cmd',
                        root_folder = root_folder',
                        metric_name = metric_name',
                        metric_label = metric_label',
                        file_handler = None,
                        system_desc = desc,
                        system_name = name,
                        systems_path = path_join root_folder' [''systems'', name @ ''.json''],
                        filename =
                          path_join root_folder'
                            [''results'', name, benchmark', ''result_'' @ str_int index @ ''.txt''],
                        upload_name =
                          ''{run_name}'' @ ''/results/'' @ name @ ''/'' @ benchmark' @ ''/result_''
                            @ str_int index @ ''.txt'',
                        system_desc_upload_name = ''{run_name}'' @ ''/systems/'' @ name @ ''.json'',
                        success = False\<rparr>, w1))))"

subsection \<open>The trainer state the hooks read\<close>

datatype dataset_obj = is_Sized: SizedDataset (dataset_len: nat) | UnsizedDataset

text \<open>An object is a \<^verbatim>\<open>torch.utils.data.DataLoader\<close> or something else.\<close>

datatype loader_obj =
  is_DataLoader: DataLoader (batch_size: "int option") (dataset: dataset_obj) | OtherObject

text \<open>
  \<open>evaluators\<close> lists \<^verbatim>\<open>ev.dataloader.dataloader\<close> of each evaluator,
  \<open>timer_epoch\<close> is \<^verbatim>\<open>state.timer.epoch.value\<close>.
\<close>

record trainer_state =
  train_dataloader :: loader_obj
  evaluators :: "loader_obj list"
  seed :: int
  grad_accum :: int
  current_metrics :: "string \<rightharpoonup> (string \<rightharpoonup> pyfloat)"
  timer_epoch :: int

type_synonym hook_result = "py_error option \<times> callback \<times> world"

subsection \<open>The lifecycle hooks\<close>

definition create_submission_folders ::
  "string \<Rightarrow> string \<Rightarrow> string \<Rightarrow> world \<Rightarrow> py_error option \<times> world" where
  "create_submission_folders root_folder' system_name' benchmark' w =
     (let results_folder = path_join root_folder' [''results''];
          log_folder = path_join root_folder' [''results'', system_name'];
          benchmark_folder = path_join log_folder [benchmark'];
          systems_folder = path_join root_folder' [''systems'']
      in and_then (and_then (and_then (and_then
           (makedirs root_folder' w)
           (makedirs results_folder))
           (makedirs log_folder))
           (makedirs benchmark_folder))
           (makedirs systems_folder))"

text \<open>\<^verbatim>\<open>_log_dict\<close>: one event for each item, in the dictionary's order.\<close>

definition log_dict :: "(mlkey \<times> pyval) list \<Rightarrow> world \<Rightarrow> world" where
  "log_dict data w = foldl (\<lambda>w' (key, v). mll_event key v None w') w data"

definition get_accuracy :: "callback \<Rightarrow> trainer_state \<Rightarrow> py_error + pyfloat" where
  "get_accuracy cb st =
     (case current_metrics st (metric_label cb) of
        None \<Rightarrow> Inl KeyError
      | Some metrics \<Rightarrow>
          (case metrics (metric_name cb) of
             None \<Rightarrow> Inl ValueError
           | Some a \<Rightarrow> Inr a))"

text \<open>
  The first statements of \<^verbatim>\<open>init\<close>, up to and including the barrier: on local rank
  zero the folders and the system description file, then the barrier on every rank.
\<close>

definition init_setup :: "env \<Rightarrow> callback \<Rightarrow> world \<Rightarrow> py_error option \<times> world" where
  "init_setup e cb w =
     and_then
       (if local_rank e = 0
        then and_then
               (create_submission_folders (root_folder cb) (system_name cb) (benchmark cb) w)
               (open_write_json (systems_path cb) (system_desc cb))
        else (None, w))
       (\<lambda>w1. (None, barrier e w1))"

definition init :: "env \<Rightarrow> callback \<Rightarrow> world \<Rightarrow> trainer_state \<Rightarrow> hook_result" where
  "init e cb w st =
     (case init_setup e cb w of
        (Some err, w1) \<Rightarrow> (Some err, cb, w1)
      | (None, w1) \<Rightarrow>
          if path_exists w1 (filename cb) then (Some FileExistsError, cb, w1)
          else
            (case new_FileHandler (filename cb) w1 of
               (Inl err, w2) \<Rightarrow> (Some err, cb, w2)
             | (Inr h, w2) \<Rightarrow>
            let cb1 = cb\<lparr>file_handler := Some h\<rparr>;
                w3 = addHandler h (setLevel h 20 w2)
            in (case (case cache_clear_cmd cb1 of
                        Some cmd \<Rightarrow>
                          and_then (subprocess_run e cmd w3) (\<lambda>w'. (None, mll_start CACHE_CLEAR w'))
                      | None \<Rightarrow>
                          (None, warn (''cache_clear_cmd was not provided. For a valid submission, ''
                                       @ ''please provide the command.'') w3)) of
                  (Some err, w4) \<Rightarrow> (Some err, cb1, w4)
                | (None, w4) \<Rightarrow>
                    let w5 = mll_start INIT_START w4 in
                    if rank_zero e
                    then (None, cb1,
                          file_artifact (system_desc_upload_name cb1) (systems_path cb1)
                            (log_dict
                               [(SUBMISSION_BENCHMARK, PStr (benchmark cb1)),
                                (SUBMISSION_DIVISION, PStr (division cb1)),
                                (SUBMISSION_ORG, PStr (submitter cb1)),
                                (SUBMISSION_PLATFORM, PStr (system_name cb1)),
                                (SUBMISSION_STATUS, PStr (status cb1))] w5))
                    else (None, cb1, w5))))"

text \<open>The checks and the hyperparameter events of \<^verbatim>\<open>fit_start\<close> on global rank zero.\<close>

definition fit_start_rank_zero :: "env \<Rightarrow> trainer_state \<Rightarrow> world \<Rightarrow> py_error option \<times> world" where
  "fit_start_rank_zero e st w =
     (if \<not> is_DataLoader (train_dataloader st) then (Some TypeError, w)
      else
        (case evaluators st of
           [] \<Rightarrow> (Some IndexError, w)
         | ev # rest \<Rightarrow>
             if \<not> is_DataLoader ev then (Some TypeError, w)
             else
               (case batch_size (train_dataloader st) of
                  None \<Rightarrow> (Some ValueError, w)
                | Some bs \<Rightarrow>
                    if length (evaluators st) > 1 then (Some ValueError, w)
                    else if \<not> is_Sized (dataset (train_dataloader st)) then (Some TypeError, w)
                    else if \<not> is_Sized (dataset ev) then (Some TypeError, w)
                    else
                      (None,
                       log_dict
                         [(SEED, PInt (seed st)),
                          (GLOBAL_BATCH_SIZE, PInt (bs * world_size e)),
                          (GRADIENT_ACCUMULATION_STEPS, PInt (grad_accum st)),
                          (TRAIN_SAMPLES, PInt (int (dataset_len (dataset (train_dataloader st))))),
                          (EVAL_SAMPLES, PInt (int (dataset_len (dataset ev))))] w))))"

definition fit_start :: "env \<Rightarrow> callback \<Rightarrow> world \<Rightarrow> trainer_state \<Rightarrow> hook_result" where
  "fit_start e cb w st =
     (case (if rank_zero e then fit_start_rank_zero e st w else (None, w)) of
        (Some err, w1) \<Rightarrow> (Some err, cb, w1)
      | (None, w1) \<Rightarrow>
          let w2 = barrier e (mll_event INIT_STOP PNone None w1)
          in if rank_zero e then (None, cb, mll_event RUN_START PNone None w2)
             else (None, cb, w2))"

definition epoch_start :: "env \<Rightarrow> callback \<Rightarrow> world \<Rightarrow> trainer_state \<Rightarrow> hook_result" where
  "epoch_start e cb w st =
     (if rank_zero e
      then (None, cb,
            mll_event BLOCK_START PNone
              (Some [(''first_epoch_num'', PInt (timer_epoch st)), (''epoch_count'', PInt 1)])
              (mll_event EPOCH_START PNone (Some [(''epoch_num'', PInt (timer_epoch st))]) w))
      else (None, cb, w))"

definition epoch_end :: "env \<Rightarrow> callback \<Rightarrow> world \<Rightarrow> trainer_state \<Rightarrow> hook_result" where
  "epoch_end e cb w st =
     (if rank_zero e
      then (None, cb,
            file_artifact (upload_name cb) (filename cb)
              (mll_event EPOCH_STOP PNone (Some [(''epoch_num'', PInt (timer_epoch st))]) w))
      else (None, cb, w))"

definition eval_start :: "env \<Rightarrow> callback \<Rightarrow> world \<Rightarrow> trainer_state \<Rightarrow> hook_result" where
  "eval_start e cb w st =
     (if rank_zero e
      then (None, cb,
            mll_event EVAL_START PNone (Some [(''epoch_num'', PInt (timer_epoch st))]) w)
      else (None, cb, w))"

definition eval_end :: "env \<Rightarrow> callback \<Rightarrow> world \<Rightarrow> trainer_state \<Rightarrow> hook_result" where
  "eval_end e cb w st =
     (if rank_zero e
      then
        (case get_accuracy cb st of
           Inl err \<Rightarrow> (Some err, cb, w)
         | Inr accuracy \<Rightarrow>
             let w1 = mll_event EVAL_STOP PNone (Some [(''epoch_num'', PInt (timer_epoch st))]) w;
                 w2 = mll_event EVAL_ACCURACY (PFloat accuracy)
                        (Some [(''epoch_num'', PInt (timer_epoch st))]) w1;
                 w3 = mll_event BLOCK_STOP PNone
                        (Some [(''first_epoch_num'', PInt (timer_epoch st))]) w2
             in if py_gt accuracy (target cb) \<and> \<not> success cb
                then (None, cb\<lparr>success := True\<rparr>,
                      removeHandler (file_handler cb)
                        (mll_event RUN_STOP PNone (Some [(''status'', PStr ''success'')]) w3))
                else (None, cb, w3))
      else (None, cb, w))"

definition close :: "env \<Rightarrow> callback \<Rightarrow> world \<Rightarrow> trainer_state \<Rightarrow> hook_result" where
  "close e cb w st =
     (case file_handler cb of
        None \<Rightarrow> (None, cb, w)
      | Some h \<Rightarrow> (None, cb, close_handler h w))"

text \<open>
  A run of \<^verbatim>\<open>eval_end\<close> calls, one for each trainer state of the list; an exception
  ends the run.
\<close>

fun eval_end_seq :: "env \<Rightarrow> callback \<Rightarrow> world \<Rightarrow> trainer_state list \<Rightarrow> hook_result" where
  "eval_end_seq e cb w [] = (None, cb, w)"
| "eval_end_seq e cb w (st # sts) =
     (case eval_end e cb w st of
        (Some err, cb', w') \<Rightarrow> (Some err, cb', w')
      | (None, cb', w') \<Rightarrow> eval_end_seq e cb' w' sts)"

subsection \<open>Reading a hook's result\<close>

fun exc_of :: "hook_result \<Rightarrow> py_error option" where
  "exc_of (x, cb, w) = x"

fun cb_of :: "hook_result \<Rightarrow> callback" where
  "cb_of (x, cb, w) = cb"

fun world_of :: "hook_result \<Rightarrow> world" where
  "world_of (x, cb, w) = w"

text \<open>The event that marks the end of the timed run.\<close>

definition run_stop_event :: effect where
  "run_stop_event = MLLog PointInTime RUN_STOP PNone (Some [(''status'', PStr ''success'')])"

fun is_run_stop :: "effect \<Rightarrow> bool" where
  "is_run_stop (MLLog k RUN_STOP v m) = True"
| "is_run_stop x = False"

text \<open>
  The accuracy that \<^verbatim>\<open>eval_end\<close> fetches from a trainer state strictly exceeds the
  target of the callback.
\<close>

definition exceeds :: "callback \<Rightarrow> trainer_state \<Rightarrow> bool" where
  "exceeds cb st = (case get_accuracy cb st of Inl err \<Rightarrow> False | Inr a \<Rightarrow> py_gt a (target cb))"

fun is_hyperparameter :: "effect \<Rightarrow> bool" where
  "is_hyperparameter (MLLog k key v m) =
     (key = SEED \<or> key = GLOBAL_BATCH_SIZE \<or> key = GRADIENT_ACCUMULATION_STEPS
      \<or> key = TRAIN_SAMPLES \<or> key = EVAL_SAMPLES)"
| "is_hyperparameter x = False"

fun is_open_write :: "effect \<Rightarrow> bool" where
  "is_open_write (OpenWrite p d) = True"
| "is_open_write x = False"

text \<open>
  A folder as the prefix of what lies in it: followed by one separator, unless it is
  empty or ends with a separator already.
\<close>

definition dir_prefix :: "string \<Rightarrow> string" where
  "dir_prefix d = (if d = [] \<or> last d = CHR ''/'' then d else d @ ''/'')"

text \<open>The calls completed before the first write of a system description.\<close>

definition before_write :: "effect list \<Rightarrow> effect list" where
  "before_write xs = takeWhile (\<lambda>x. \<not> is_open_write x) xs"

fun is_makedirs :: "effect \<Rightarrow> bool" where
  "is_makedirs (Makedirs p) = True"
| "is_makedirs x = False"

text \<open>
  What \<^verbatim>\<open>init\<close> does up to the barrier on local rank zero when nothing raises: the
  five folders in the order of \<^verbatim>\<open>_create_submission_folders\<close>, the system
  description file, the barrier.
\<close>

definition setup_effects :: "callback \<Rightarrow> effect list" where
  "setup_effects cb =
     [Makedirs (root_folder cb),
      Makedirs (path_join (root_folder cb) [''results'']),
      Makedirs (path_join (root_folder cb) [''results'', system_name cb]),
      Makedirs (path_join (path_join (root_folder cb) [''results'', system_name cb]) [benchmark cb]),
      Makedirs (path_join (root_folder cb) [''systems'']),
      OpenWrite (systems_path cb) (system_desc cb),
      Barrier]"


subsection \<open>Example inputs\<close>

definition example_env :: env where
  "example_env =
     \<lparr>global_rank = 0, local_rank = 0, world_size = 8, local_world_size = 8,
      barrier_fs = (\<lambda>f. f), subprocess_error = (\<lambda>cmd. None), round_float = Finite,
      mlperf_available = True,
      cuda_is_available = True, cuda_device_name = ''NVIDIA A100 80GB'', cuda_version = ''11.3'',
      cpu_brand_raw = Some ''AMD EPYC 7513'', cpu_count = Some 64, torch_version = ''1.11.0'',
      composer_version = ''0.6.0'', sys_version = ''3.9.7'', platform_system = ''Linux'',
      platform_release = ''5.4.0''\<rparr>"

definition example_world :: world where
  "example_world =
     \<lparr>fs = Map.empty, fh_objs = Map.empty, next_ref = 0, mll_handlers = {}, trace = []\<rparr>"

text \<open>
  The callback of the docstring's example, on a system named \<^verbatim>\<open>dgx\<close>, and the same
  with the system name left to the default.
\<close>

definition example_construction :: "(py_error + callback) \<times> world" where
  "example_construction =
     MLPerfCallback example_env ''/submission'' 0 ''resnet'' (Finite 0.759) ''open'' ''Accuracy''
       ''eval'' ''MosaicML'' (Some ''dgx'') ''onprem'' None example_world"

definition example_callback :: callback where
  "example_callback = projr (fst example_construction)"

definition default_name_construction :: "(py_error + callback) \<times> world" where
  "default_name_construction =
     MLPerfCallback example_env ''/submission'' 0 ''resnet'' (Finite 0.759) ''open'' ''Accuracy''
       ''eval'' ''MosaicML'' None ''onprem'' None example_world"

text \<open>A root folder written with a trailing separator.\<close>

definition trailing_slash_construction :: "(py_error + callback) \<times> world" where
  "trailing_slash_construction =
     MLPerfCallback example_env ''/submission/'' 0 ''resnet'' (Finite 0.759) ''open'' ''Accuracy''
       ''eval'' ''MosaicML'' (Some ''dgx'') ''onprem'' None example_world"

text \<open>A system name that is an absolute path.\<close>

definition absolute_name_construction :: "(py_error + callback) \<times> world" where
  "absolute_name_construction =
     MLPerfCallback example_env ''/submission'' 0 ''resnet'' (Finite 0.759) ''open'' ''Accuracy''
       ''eval'' ''MosaicML'' (Some ''/tmp/dgx'') ''onprem'' None example_world"

definition example_state :: "rat \<Rightarrow> trainer_state" where
  "example_state acc =
     \<lparr>train_dataloader = DataLoader (Some 256) (SizedDataset 1281167),
      evaluators = [DataLoader (Some 256) (SizedDataset 50000)],
      seed = 42,
      grad_accum = 1,
      current_metrics = [''eval'' \<mapsto> [''Accuracy'' \<mapsto> Finite acc]],
      timer_epoch = 3\<rparr>"

text \<open>A trainer state whose evaluation metrics lack the accuracy.\<close>

definition state_without_metric :: trainer_state where
  "state_without_metric =
     (example_state 0)\<lparr>current_metrics := [''eval'' \<mapsto> [''Loss'' \<mapsto> Finite 2]]\<rparr>"


text \<open>A process that is neither global nor local rank zero.\<close>

definition worker_env :: env where
  "worker_env = example_env\<lparr>global_rank := 3, local_rank := 3\<rparr>"

text \<open>The example callback with a command that clears the cache.\<close>

definition cache_clearing_callback :: callback where
  "cache_clearing_callback = example_callback\<lparr>cache_clear_cmd := Some [''sync'']\<rparr>"

text \<open>The first process of a second node of eight: global rank eight, local rank zero.\<close>

definition second_node_env :: env where
  "second_node_env = example_env\<lparr>global_rank := 8, local_rank := 0, world_size := 16\<rparr>"

text \<open>
  The example callback after \<^verbatim>\<open>init\<close>, then after an evaluation below the target,
  then after one above it.
\<close>

definition initialized :: hook_result where
  "initialized = init example_env example_callback example_world (example_state 0)"

text \<open>
  A new process on the file system that the run above left behind: it holds the results
  file of the example callback.
\<close>

definition world_with_results :: world where
  "world_with_results = example_world\<lparr>fs := fs (world_of initialized)\<rparr>"

definition after_low :: hook_result where
  "after_low =
     eval_end_seq example_env (cb_of initialized) (world_of initialized) [example_state 0.5]"

definition after_high :: hook_result where
  "after_high = eval_end example_env (cb_of after_low) (world_of after_low) (example_state 0.8)"

section \<open>Properties\<close>

subsection \<open>Basic facts\<close>

lemma trace_emit [simp]: "trace (emit x w) = trace w @ [x]"
  by (simp add: emit_def)

lemma emit_fields [simp]:
  "fs (emit x w) = fs w" "fh_objs (emit x w) = fh_objs w"
  "mll_handlers (emit x w) = mll_handlers w" "next_ref (emit x w) = next_ref w"
  by (simp_all add: emit_def)

lemma barrier_fields [simp]:
  "trace (barrier e w) = trace w @ [Barrier]"
  "mll_handlers (barrier e w) = mll_handlers w"
  "fh_objs (barrier e w) = fh_objs w"
  by (simp_all add: barrier_def)

lemma new_effects_same [simp]: "new_effects w w = []"
  by (simp add: new_effects_def)

lemma new_effects_append: "trace w' = trace w @ xs \<Longrightarrow> new_effects w w' = xs"
  by (simp add: new_effects_def)

lemma filter_none: "list_all (\<lambda>y. \<not> P y) xs \<Longrightarrow> filter P xs = []"
  by (induction xs) auto

lemma hook_result_eq: "r = (exc_of r, cb_of r, world_of r)"
  by (cases r) simp

subsection \<open>The example inputs evaluated\<close>

lemma example_callback_eq: "fst example_construction = Inr example_callback"
  unfolding example_callback_def example_construction_def
  by (simp add: MLPerfCallback_def example_env_def BENCHMARKS_def DIVISIONS_def STATUS_def
      get_system_description_def)

lemma example_callback_fields:
  "metric_label example_callback = ''eval''"
  "metric_name example_callback = ''Accuracy''"
  "target example_callback = Finite 0.759"
  "success example_callback = False"
  "file_handler example_callback = None"
  "cache_clear_cmd example_callback = None"
  "root_folder example_callback = ''/submission''"
  "system_name example_callback = ''dgx''"
  "benchmark example_callback = ''resnet''"
  "systems_path example_callback = ''/submission/systems/dgx.json''"
  "filename example_callback = ''/submission/results/dgx/resnet/result_0.txt''"
  unfolding example_callback_def example_construction_def
  by (simp_all add: MLPerfCallback_def example_env_def BENCHMARKS_def DIVISIONS_def STATUS_def
      get_system_description_def path_join_def join2_def startswith_sep_def str_int_def
      str_nat.simps digit_char_def)

lemmas init_unfold =
  init_def init_setup_def create_submission_folders_def and_then_def makedirs_def
  path_join_def join2_def startswith_sep_def open_write_json_def open_error_def dirname_def ancestors_def
  norm_head_def rstrip_sep_def barrier_def path_exists_def emit_def
  new_FileHandler_def setLevel_def addHandler_def warn_def subprocess_run_def mll_start_def
  rank_zero_def log_dict_def mll_event_def file_artifact_def Let_def

lemma initialized_facts:
  "exc_of initialized = None"
  "file_handler (cb_of initialized) = Some 0"
  "fh_objs (world_of initialized) 0
     = Some \<lparr>fh_path = ''/submission/results/dgx/resnet/result_0.txt'', fh_level = 20,
             fh_closed = False\<rparr>"
  "mll_handlers (world_of initialized) = {0}"
  "fs (world_of initialized) ''/submission/results/dgx/resnet/result_0.txt'' = Some File"
  "cb_of initialized = example_callback\<lparr>file_handler := Some 0\<rparr>"
  unfolding initialized_def
  by (simp_all add: init_unfold example_env_def example_world_def example_callback_fields)

lemma initialized_trace:
  "trace (world_of initialized) =
     [Makedirs ''/submission'', Makedirs ''/submission/results'',
      Makedirs ''/submission/results/dgx'', Makedirs ''/submission/results/dgx/resnet'',
      Makedirs ''/submission/systems'',
      OpenWrite ''/submission/systems/dgx.json'' (system_desc example_callback), Barrier,
      OpenAppend ''/submission/results/dgx/resnet/result_0.txt'',
      Warn ''cache_clear_cmd was not provided. For a valid submission, please provide the command.'',
      MLLog IntervalStart INIT_START PNone None,
      MLLog PointInTime SUBMISSION_BENCHMARK (PStr ''resnet'') None,
      MLLog PointInTime SUBMISSION_DIVISION (PStr (division example_callback)) None,
      MLLog PointInTime SUBMISSION_ORG (PStr (submitter example_callback)) None,
      MLLog PointInTime SUBMISSION_PLATFORM (PStr ''dgx'') None,
      MLLog PointInTime SUBMISSION_STATUS (PStr (status example_callback)) None,
      FileArtifact (system_desc_upload_name example_callback) ''/submission/systems/dgx.json'']"
  unfolding initialized_def
  by (simp add: init_unfold example_env_def example_world_def example_callback_fields)

subsection \<open>The effects of init\<close>

lemma makedirs_cases:
  "(\<exists>err. makedirs p w = (Some err, w)) \<or>
   (\<exists>w'. makedirs p w = (None, w') \<and> trace w' = trace w @ [Makedirs p]
      \<and> mll_handlers w' = mll_handlers w \<and> fh_objs w' = fh_objs w)"
  by (simp add: makedirs_def)

lemma and_then_makedirs:
  assumes "mll_handlers (snd r) = mll_handlers w \<and> fh_objs (snd r) = fh_objs w"
    and "\<exists>xs. trace (snd r) = trace w @ xs \<and> list_all is_makedirs xs
           \<and> (fst r = None \<longrightarrow> xs = map Makedirs ps)"
  shows "(mll_handlers (snd (and_then r (makedirs p))) = mll_handlers w
          \<and> fh_objs (snd (and_then r (makedirs p))) = fh_objs w)
       \<and> (\<exists>xs. trace (snd (and_then r (makedirs p))) = trace w @ xs \<and> list_all is_makedirs xs
           \<and> (fst (and_then r (makedirs p)) = None \<longrightarrow> xs = map Makedirs (ps @ [p])))"
proof (cases r)
  case (Pair x w1)
  show ?thesis
  proof (cases x)
    case (Some err)
    with Pair assms show ?thesis
      by (auto simp: and_then_def)
  next
    case None
    from makedirs_cases [of p w1] show ?thesis
    proof
      assume "\<exists>err. makedirs p w1 = (Some err, w1)"
      then obtain err where "makedirs p w1 = (Some err, w1)" by blast
      with Pair None assms show ?thesis
        by (auto simp: and_then_def)
    next
      assume "\<exists>w'. makedirs p w1 = (None, w') \<and> trace w' = trace w1 @ [Makedirs p]
        \<and> mll_handlers w' = mll_handlers w1 \<and> fh_objs w' = fh_objs w1"
      then obtain w2 where "makedirs p w1 = (None, w2)" "trace w2 = trace w1 @ [Makedirs p]"
        "mll_handlers w2 = mll_handlers w1" "fh_objs w2 = fh_objs w1"
        by blast
      with Pair None assms show ?thesis
        by (auto simp: and_then_def)
    qed
  qed
qed

lemma create_submission_folders_effects:
  "(mll_handlers (snd (create_submission_folders r s b w)) = mll_handlers w
    \<and> fh_objs (snd (create_submission_folders r s b w)) = fh_objs w)
   \<and> (\<exists>xs. trace (snd (create_submission_folders r s b w)) = trace w @ xs
         \<and> list_all is_makedirs xs
         \<and> (fst (create_submission_folders r s b w) = None \<longrightarrow>
              xs = map Makedirs
                     [r, path_join r [''results''], path_join r [''results'', s],
                      path_join (path_join r [''results'', s]) [b], path_join r [''systems'']]))"
proof -
  have start: "(mll_handlers (snd (None, w)) = mll_handlers w \<and> fh_objs (snd (None, w)) = fh_objs w)"
    "\<exists>xs. trace (snd (None :: py_error option, w)) = trace w @ xs \<and> list_all is_makedirs xs
           \<and> (fst (None :: py_error option, w) = None \<longrightarrow> xs = map Makedirs [])"
    by simp_all
  have first: "makedirs r w = and_then (None, w) (makedirs r)"
    by (simp add: and_then_def)
  note s1 = and_then_makedirs [OF start, of r]
  note s2 = and_then_makedirs [OF conjunct1 [OF s1] conjunct2 [OF s1], of "path_join r [''results'']"]
  note s3 = and_then_makedirs [OF conjunct1 [OF s2] conjunct2 [OF s2], of "path_join r [''results'', s]"]
  note s4 = and_then_makedirs [OF conjunct1 [OF s3] conjunct2 [OF s3],
      of "path_join (path_join r [''results'', s]) [b]"]
  note s5 = and_then_makedirs [OF conjunct1 [OF s4] conjunct2 [OF s4], of "path_join r [''systems'']"]
  from s5 show ?thesis
    unfolding create_submission_folders_def Let_def first by simp
qed

lemma open_write_json_cases:
  "(\<exists>err. open_write_json p d w = (Some err, w)) \<or>
   (\<exists>w'. open_write_json p d w = (None, w') \<and> trace w' = trace w @ [OpenWrite p d]
      \<and> mll_handlers w' = mll_handlers w \<and> fh_objs w' = fh_objs w)"
  by (cases "open_error (fs w) p") (simp_all add: open_write_json_def)

lemma new_FileHandler_cases:
  "(\<exists>err. new_FileHandler p w = (Inl err, w)) \<or>
   (\<exists>h w'. new_FileHandler p w = (Inr h, w') \<and> trace w' = trace w @ [OpenAppend p])"
  by (cases "open_error (fs w) p") (simp_all add: new_FileHandler_def)

lemma init_setup_effects:
  "(mll_handlers (snd (init_setup e cb w)) = mll_handlers w
    \<and> fh_objs (snd (init_setup e cb w)) = fh_objs w)
   \<and> (\<exists>xs. trace (snd (init_setup e cb w)) = trace w @ xs
         \<and> list_all (\<lambda>y. is_makedirs y \<or> is_open_write y \<or> y = Barrier) xs
         \<and> ((\<exists>y\<in>set xs. is_open_write y) \<longrightarrow> xs = setup_effects cb))"
proof (cases "local_rank e = 0")
  case False
  then show ?thesis
    by (simp add: init_setup_def and_then_def)
next
  case True
  let ?r = "create_submission_folders (root_folder cb) (system_name cb) (benchmark cb) w"
  obtain x w1 where r: "?r = (x, w1)" by (cases ?r)
  from create_submission_folders_effects [of "root_folder cb" "system_name cb" "benchmark cb" w] r
  obtain xs where h: "mll_handlers w1 = mll_handlers w" "fh_objs w1 = fh_objs w"
    and xs: "trace w1 = trace w @ xs" "list_all is_makedirs xs"
      "x = None \<longrightarrow> xs = map Makedirs
                     [root_folder cb, path_join (root_folder cb) [''results''],
                      path_join (root_folder cb) [''results'', system_name cb],
                      path_join (path_join (root_folder cb) [''results'', system_name cb])
                        [benchmark cb],
                      path_join (root_folder cb) [''systems'']]"
    by auto
  have nw: "\<not> (\<exists>y\<in>set xs. is_open_write y)"
    using xs(2) by (induction xs) (auto elim: is_makedirs.elims)
  have weak: "list_all (\<lambda>y. is_makedirs y \<or> is_open_write y \<or> y = Barrier) xs"
    using xs(2) by (induction xs) auto
  show ?thesis
  proof (cases x)
    case (Some err)
    with True r h xs nw weak show ?thesis
      by (simp add: init_setup_def and_then_def)
  next
    case None
    from open_write_json_cases [of "systems_path cb" "system_desc cb" w1] show ?thesis
    proof
      assume "\<exists>err. open_write_json (systems_path cb) (system_desc cb) w1 = (Some err, w1)"
      then obtain err where "open_write_json (systems_path cb) (system_desc cb) w1 = (Some err, w1)"
        by blast
      with None True r h xs nw weak show ?thesis
        by (simp add: init_setup_def and_then_def)
    next
      assume "\<exists>w'. open_write_json (systems_path cb) (system_desc cb) w1 = (None, w')
        \<and> trace w' = trace w1 @ [OpenWrite (systems_path cb) (system_desc cb)]
        \<and> mll_handlers w' = mll_handlers w1 \<and> fh_objs w' = fh_objs w1"
      then obtain w2 where w2: "open_write_json (systems_path cb) (system_desc cb) w1 = (None, w2)"
        "trace w2 = trace w1 @ [OpenWrite (systems_path cb) (system_desc cb)]"
        "mll_handlers w2 = mll_handlers w1" "fh_objs w2 = fh_objs w1"
        by blast
      with None True r h xs weak show ?thesis
        by (simp add: init_setup_def and_then_def setup_effects_def)
    qed
  qed
qed

lemma init_after_setup:
  assumes "init_setup e cb w = (x, w1)"
  shows "\<exists>ys. trace (world_of (init e cb w st)) = trace w1 @ ys
     \<and> list_all (\<lambda>y. \<not> is_open_write y \<and> \<not> is_makedirs y) ys
     \<and> (exc_of (init e cb w st) = None \<longrightarrow>
           MLLog IntervalStart INIT_START PNone None \<in> set ys
           \<and> (cache_clear_cmd cb \<noteq> None \<longrightarrow>
                 MLLog IntervalStart CACHE_CLEAR PNone None \<in> set ys))
     \<and> (global_rank e \<noteq> 0 \<longrightarrow>
           list_all (\<lambda>y. \<not> is_event y \<and> \<not> is_artifact y
              \<and> (is_mllog y \<longrightarrow> y = MLLog IntervalStart CACHE_CLEAR PNone None
                                \<or> y = MLLog IntervalStart INIT_START PNone None)) ys)"
proof (cases "x \<noteq> None \<or> path_exists w1 (filename cb)")
  case True
  with assms show ?thesis
    by (cases x) (auto simp: init_def)
next
  case False
  from new_FileHandler_cases [of "filename cb" w1] show ?thesis
  proof
    assume "\<exists>err. new_FileHandler (filename cb) w1 = (Inl err, w1)"
    then obtain err where "new_FileHandler (filename cb) w1 = (Inl err, w1)" by blast
    with False assms show ?thesis
      by (auto simp: init_def)
  next
    assume "\<exists>h w'. new_FileHandler (filename cb) w1 = (Inr h, w')
      \<and> trace w' = trace w1 @ [OpenAppend (filename cb)]"
    then obtain h w2 where "new_FileHandler (filename cb) w1 = (Inr h, w2)"
      "trace w2 = trace w1 @ [OpenAppend (filename cb)]"
      by blast
    with False assms show ?thesis
      by (simp add: init_def Let_def setLevel_def addHandler_def and_then_def subprocess_run_def
          warn_def mll_start_def rank_zero_def log_dict_def mll_event_def file_artifact_def
          split: option.splits)
  qed
qed

lemma setup_kinds:
  assumes "list_all (\<lambda>y. is_makedirs y \<or> is_open_write y \<or> y = Barrier) xs"
  shows "list_all (\<lambda>y. \<not> is_mllog y) xs" and "list_all (\<lambda>y. \<not> is_event y) xs"
    and "list_all (\<lambda>y. \<not> is_artifact y) xs"
  using assms by (induction xs) (auto elim: is_makedirs.elims is_open_write.elims)

subsection \<open>The success gate of eval_end\<close>

lemma exceeds_success_update [simp]: "exceeds (cb\<lparr>success := b\<rparr>) st = exceeds cb st"
  by (simp add: exceeds_def get_accuracy_def split: option.splits)

lemma eval_end_step:
  assumes "global_rank e = 0"
  shows "cb_of (eval_end e cb w st) = cb\<lparr>success := success cb \<or> exceeds cb st\<rparr>"
    and "\<exists>xs. trace (world_of (eval_end e cb w st)) = trace w @ xs
           \<and> filter is_run_stop xs
               = (if exceeds cb st \<and> \<not> success cb then [run_stop_event] else [])"
    and "exceeds cb st \<and> \<not> success cb \<longrightarrow>
           (\<forall>h. file_handler cb = Some h \<longrightarrow> h \<notin> mll_handlers (world_of (eval_end e cb w st)))"
  using assms
  by (auto simp: eval_end_def rank_zero_def exceeds_def Let_def mll_event_def removeHandler_def
      run_stop_event_def split: sum.splits option.splits)

lemma eval_end_seq_invariant:
  assumes "global_rank e = 0"
  shows "(exc_of (eval_end_seq e cb w sts) = None \<longrightarrow>
            cb_of (eval_end_seq e cb w sts)
              = cb\<lparr>success := success cb \<or> (\<exists>s\<in>set sts. exceeds cb s)\<rparr>)
       \<and> (\<exists>xs. trace (world_of (eval_end_seq e cb w sts)) = trace w @ xs
             \<and> length (filter is_run_stop xs) \<le> (if success cb then 0 else 1))"
proof (induction sts arbitrary: cb w)
  case Nil
  show ?case by simp
next
  case (Cons st sts)
  obtain x cb1 w1 where r: "eval_end e cb w st = (x, cb1, w1)"
    by (cases "eval_end e cb w st")
  from eval_end_step [OF assms, where cb = cb and w = w and st = st] r obtain xs where
    cb1: "cb1 = cb\<lparr>success := success cb \<or> exceeds cb st\<rparr>"
    and xs: "trace w1 = trace w @ xs"
      "filter is_run_stop xs = (if exceeds cb st \<and> \<not> success cb then [run_stop_event] else [])"
    by auto
  show ?case
  proof (cases x)
    case (Some err)
    with r xs show ?thesis by auto
  next
    case None
    from Cons.IH [where cb = cb1 and w = w1] obtain ys where
      ih: "exc_of (eval_end_seq e cb1 w1 sts) = None \<longrightarrow>
             cb_of (eval_end_seq e cb1 w1 sts)
               = cb1\<lparr>success := success cb1 \<or> (\<exists>s\<in>set sts. exceeds cb1 s)\<rparr>"
      and ys: "trace (world_of (eval_end_seq e cb1 w1 sts)) = trace w1 @ ys"
        "length (filter is_run_stop ys) \<le> (if success cb1 then 0 else 1)"
      by auto
    have seq: "eval_end_seq e cb w (st # sts) = eval_end_seq e cb1 w1 sts"
      using r None by simp
    have "trace (world_of (eval_end_seq e cb w (st # sts))) = trace w @ (xs @ ys)"
      using seq xs(1) ys(1) by simp
    moreover have "length (filter is_run_stop (xs @ ys)) \<le> (if success cb then 0 else 1)"
      using xs(2) ys(2) cb1 by (auto split: if_splits)
    moreover have "exc_of (eval_end_seq e cb w (st # sts)) = None \<longrightarrow>
            cb_of (eval_end_seq e cb w (st # sts))
              = cb\<lparr>success := success cb \<or> (\<exists>s\<in>set (st # sts). exceeds cb s)\<rparr>"
      using seq ih cb1 by auto
    ultimately show ?thesis by blast
  qed
qed

text \<open>
  Claim C1. On global rank zero, take any run of \<^verbatim>\<open>eval_end\<close> calls \<open>pre\<close> that
  completed, and the next call, on \<open>st\<close>. The success flag before that call is set exactly
  when it was set at the start or an earlier call fetched an accuracy above the target. The
  call emits the \<^verbatim>\<open>RUN_STOP\<close> event with metadata status \<^verbatim>\<open>success\<close>, once,
  exactly when its accuracy strictly exceeds the target and the flag is still unset, and
  emits no \<^verbatim>\<open>RUN_STOP\<close> of any form otherwise; in the first case it sets the flag and
  the file handler is no longer among the logger's handlers. Once the flag is set no further
  run of calls emits \<^verbatim>\<open>RUN_STOP\<close>, whatever the accuracies, and any run of calls
  emits it at most once.
\<close>

theorem run_stop_exactly_once:
  assumes "global_rank e = 0"
    and "eval_end_seq e cb w pre = (None, cb1, w1)"
    and "eval_end e cb1 w1 st = (x, cb2, w2)"
  shows "success cb1 = (success cb \<or> (\<exists>s\<in>set pre. exceeds cb s))
       \<and> filter is_run_stop (new_effects w1 w2)
           = (if exceeds cb st \<and> \<not> success cb1 then [run_stop_event] else [])
       \<and> (exceeds cb st \<and> \<not> success cb1 \<longrightarrow>
            success cb2 \<and> (\<forall>h. file_handler cb2 = Some h \<longrightarrow> h \<notin> mll_handlers w2))
       \<and> (success cb2 \<longrightarrow>
            filter is_run_stop (new_effects w2 (world_of (eval_end_seq e cb2 w2 sts))) = [])
       \<and> length (filter is_run_stop (new_effects w (world_of (eval_end_seq e cb w sts)))) \<le> 1"
proof -
  from eval_end_seq_invariant [OF assms(1), where cb = cb and w = w and sts = pre] assms(2)
  have cb1: "cb1 = cb\<lparr>success := success cb \<or> (\<exists>s\<in>set pre. exceeds cb s)\<rparr>"
    by simp
  then have ex: "exceeds cb1 st = exceeds cb st" by simp
  from eval_end_step [OF assms(1), where cb = cb1 and w = w1 and st = st] assms(3) ex obtain xs where
    cb2: "cb2 = cb1\<lparr>success := success cb1 \<or> exceeds cb st\<rparr>"
    and xs: "trace w2 = trace w1 @ xs"
      "filter is_run_stop xs = (if exceeds cb st \<and> \<not> success cb1 then [run_stop_event] else [])"
    and rm: "exceeds cb st \<and> \<not> success cb1 \<longrightarrow>
           (\<forall>h. file_handler cb1 = Some h \<longrightarrow> h \<notin> mll_handlers w2)"
    by auto
  have step: "filter is_run_stop (new_effects w1 w2)
           = (if exceeds cb st \<and> \<not> success cb1 then [run_stop_event] else [])"
    using xs by (simp add: new_effects_append)
  have later: "success cb2 \<longrightarrow>
      filter is_run_stop (new_effects w2 (world_of (eval_end_seq e cb2 w2 sts))) = []"
  proof
    assume s: "success cb2"
    from eval_end_seq_invariant [OF assms(1), where cb = cb2 and w = w2 and sts = sts] s obtain ys where
      "trace (world_of (eval_end_seq e cb2 w2 sts)) = trace w2 @ ys"
      "length (filter is_run_stop ys) \<le> 0"
      by auto
    then show "filter is_run_stop (new_effects w2 (world_of (eval_end_seq e cb2 w2 sts))) = []"
      by (simp add: new_effects_append)
  qed
  have total: "length (filter is_run_stop (new_effects w (world_of (eval_end_seq e cb w sts)))) \<le> 1"
  proof -
    from eval_end_seq_invariant [OF assms(1), where cb = cb and w = w and sts = sts] obtain zs where
      "trace (world_of (eval_end_seq e cb w sts)) = trace w @ zs"
      "length (filter is_run_stop zs) \<le> (if success cb then 0 else 1)"
      by auto
    then show ?thesis by (simp add: new_effects_append split: if_splits)
  qed
  from cb1 cb2 step rm later total show ?thesis by simp
qed

lemma after_low_eval:
  "exc_of after_low = None" "cb_of after_low = cb_of initialized"
  unfolding after_low_def
  by (simp_all add: eval_end_def rank_zero_def example_env_def get_accuracy_def example_state_def
      initialized_facts(6) example_callback_fields Let_def)

lemma exceeds_examples:
  "\<not> exceeds (cb_of initialized) (example_state 0.5)"
  "exceeds (cb_of initialized) (example_state 0.8)"
  by (simp_all add: exceeds_def get_accuracy_def example_state_def initialized_facts(6)
      example_callback_fields)

theorem run_stop_exactly_once_witness:
  "global_rank example_env = 0
   \<and> exc_of after_low = None
   \<and> \<not> success (cb_of after_low)
   \<and> exceeds (cb_of initialized) (example_state 0.8)
   \<and> filter is_run_stop (new_effects (world_of after_low) (world_of after_high))
       = [run_stop_event]
   \<and> success (cb_of after_high)
   \<and> file_handler (cb_of after_high) = Some 0
   \<and> 0 \<notin> mll_handlers (world_of after_high)
   \<and> filter is_run_stop
        (new_effects (world_of after_high)
          (world_of (eval_end_seq example_env (cb_of after_high) (world_of after_high)
             [example_state 0.9]))) = []"
proof -
  have rank: "global_rank example_env = 0" by (simp add: example_env_def)
  have pre: "eval_end_seq example_env (cb_of initialized) (world_of initialized)
      [example_state 0.5] = (None, cb_of after_low, world_of after_low)"
    unfolding after_low_def [symmetric]
    by (rule hook_result_eq [of after_low, unfolded after_low_eval(1)])
  have step: "eval_end example_env (cb_of after_low) (world_of after_low) (example_state 0.8)
      = (exc_of after_high, cb_of after_high, world_of after_high)"
    unfolding after_high_def [symmetric] by (rule hook_result_eq)
  have handler: "file_handler (cb_of after_high) = Some 0"
    by (simp add: after_high_def after_low_eval(2) eval_end_def rank_zero_def example_env_def
        get_accuracy_def example_state_def initialized_facts(6) example_callback_fields Let_def)
  have low: "\<not> success (cb_of initialized)"
    by (simp add: initialized_facts(6) example_callback_fields)
  from run_stop_exactly_once [OF rank pre step, where sts = "[example_state 0.9]"]
  show ?thesis
    using rank handler low exceeds_examples after_low_eval by simp
qed

text \<open>
  Claim C9. On global rank zero, when the metrics under the callback's metric label lack
  the callback's metric name, \<^verbatim>\<open>eval_end\<close> raises \<^verbatim>\<open>ValueError\<close> and returns
  the callback and the world as they were: nothing is logged and the success flag is
  unchanged.
\<close>

theorem eval_end_metric_absent:
  assumes "global_rank e = 0"
    and "current_metrics st (metric_label cb) = Some metrics"
    and "metrics (metric_name cb) = None"
  shows "eval_end e cb w st = (Some ValueError, cb, w)"
  using assms by (simp add: eval_end_def rank_zero_def get_accuracy_def)

theorem eval_end_metric_absent_witness:
  "global_rank example_env = 0
   \<and> current_metrics state_without_metric (metric_label example_callback)
       = Some [''Loss'' \<mapsto> Finite 2]
   \<and> [''Loss'' \<mapsto> Finite 2] (metric_name example_callback) = None
   \<and> eval_end example_env example_callback example_world state_without_metric
       = (Some ValueError, example_callback, example_world)"
  using eval_end_metric_absent [of example_env state_without_metric example_callback
      "[''Loss'' \<mapsto> Finite 2]" example_world]
  by (simp add: example_env_def state_without_metric_def example_state_def
      example_callback_fields)

subsection \<open>The checks of fit_start\<close>

lemma fit_start_rank_zero_effects:
  "(fst (fit_start_rank_zero e st w) \<noteq> None \<longrightarrow> snd (fit_start_rank_zero e st w) = w)
   \<and> (\<exists>xs. trace (snd (fit_start_rank_zero e st w)) = trace w @ xs
         \<and> list_all is_hyperparameter xs)"
  by (simp add: fit_start_rank_zero_def log_dict_def mll_event_def
      split: list.splits option.splits)





subsection \<open>init and the results file\<close>

text \<open>
  Claim C3. When the first statements of \<^verbatim>\<open>init\<close> (folder creation on local rank
  zero, the barrier) complete and the results file exists in the file system they leave,
  \<^verbatim>\<open>init\<close> raises \<^verbatim>\<open>FileExistsError\<close>. The callback object is returned as it
  was (no file handler stored), the logger's handlers and the handler objects are those
  from before the call, and the call logged nothing through the MLPerf logger: no
  \<^verbatim>\<open>CACHE_CLEAR\<close>, no \<^verbatim>\<open>INIT_START\<close>, no submission metadata.
\<close>

theorem init_raises_when_results_file_exists:
  assumes "init_setup e cb w = (None, w1)" and "path_exists w1 (filename cb)"
  shows "init e cb w st = (Some FileExistsError, cb, w1)
       \<and> mll_handlers w1 = mll_handlers w
       \<and> fh_objs w1 = fh_objs w
       \<and> filter is_mllog (new_effects w w1) = []"
proof -
  have "init e cb w st = (Some FileExistsError, cb, w1)"
    using assms by (simp add: init_def)
  moreover from init_setup_effects [of e cb w] assms(1)
  obtain xs where "mll_handlers w1 = mll_handlers w" "fh_objs w1 = fh_objs w"
    "trace w1 = trace w @ xs" "list_all (\<lambda>y. is_makedirs y \<or> is_open_write y \<or> y = Barrier) xs"
    by auto
  moreover from this have "filter is_mllog (new_effects w w1) = []"
    by (simp add: new_effects_append filter_none setup_kinds(1))
  ultimately show ?thesis by simp
qed

theorem init_raises_when_results_file_exists_witness:
  "fst (init_setup example_env example_callback world_with_results) = None
   \<and> path_exists (snd (init_setup example_env example_callback world_with_results))
        (filename example_callback)
   \<and> exc_of (init example_env example_callback world_with_results (example_state 0))
       = Some FileExistsError
   \<and> cb_of (init example_env example_callback world_with_results (example_state 0))
       = example_callback
   \<and> mll_handlers (world_of (init example_env example_callback world_with_results
        (example_state 0))) = {}
   \<and> filter is_mllog (new_effects world_with_results
        (world_of (init example_env example_callback world_with_results (example_state 0)))) = []"
proof -
  have ok: "fst (init_setup example_env example_callback world_with_results) = None"
    by (simp add: init_unfold example_env_def example_world_def world_with_results_def
        initialized_def example_callback_fields)
  have ex: "path_exists (snd (init_setup example_env example_callback world_with_results))
        (filename example_callback)"
    by (simp add: init_unfold example_env_def example_world_def world_with_results_def
        initialized_def example_callback_fields)
  have eq: "init_setup example_env example_callback world_with_results
      = (None, snd (init_setup example_env example_callback world_with_results))"
    using ok by (simp add: prod_eq_iff)
  have h0: "mll_handlers world_with_results = {}"
    by (simp add: world_with_results_def example_world_def)
  from init_raises_when_results_file_exists [OF eq ex, of "example_state 0"] ok ex h0
  show ?thesis by simp
qed

subsection \<open>Rank gating\<close>

lemma init_logs_start:
  "exc_of (init e cb w st) = None \<longrightarrow>
     MLLog IntervalStart INIT_START PNone None \<in> set (new_effects w (world_of (init e cb w st)))
     \<and> (cache_clear_cmd cb \<noteq> None \<longrightarrow>
           MLLog IntervalStart CACHE_CLEAR PNone None
             \<in> set (new_effects w (world_of (init e cb w st))))"
proof -
  obtain x w1 where su: "init_setup e cb w = (x, w1)" by (cases "init_setup e cb w")
  from init_setup_effects [of e cb w] su obtain xs where xs: "trace w1 = trace w @ xs"
    by auto
  from init_after_setup [OF su, of st] obtain ys where
    ys: "trace (world_of (init e cb w st)) = trace w1 @ ys"
      "exc_of (init e cb w st) = None \<longrightarrow>
         MLLog IntervalStart INIT_START PNone None \<in> set ys
         \<and> (cache_clear_cmd cb \<noteq> None \<longrightarrow> MLLog IntervalStart CACHE_CLEAR PNone None \<in> set ys)"
    by auto
  have "new_effects w (world_of (init e cb w st)) = xs @ ys"
    using xs ys(1) by (simp add: new_effects_append)
  with ys(2) show ?thesis by simp
qed

lemma second_node_init:
  "exc_of (init second_node_env example_callback example_world (example_state 0)) = None"
  "filter is_mllog (new_effects example_world
        (world_of (init second_node_env example_callback example_world (example_state 0))))
     = [MLLog IntervalStart INIT_START PNone None]"
  by (simp_all add: init_unfold new_effects_def second_node_env_def example_env_def
      example_world_def example_callback_fields)

lemma second_node_cache_clearing:
  "cache_clear_cmd cache_clearing_callback \<noteq> None"
  "exc_of (init second_node_env cache_clearing_callback example_world (example_state 0)) = None"
  "filter is_mllog (new_effects example_world
        (world_of (init second_node_env cache_clearing_callback example_world (example_state 0))))
     = [MLLog IntervalStart CACHE_CLEAR PNone None, MLLog IntervalStart INIT_START PNone None]"
  by (simp_all add: init_unfold new_effects_def second_node_env_def example_env_def
      example_world_def cache_clearing_callback_def example_callback_fields)

text \<open>
  Claim C4, amended. Every log emission of \<^verbatim>\<open>epoch_start\<close>, \<^verbatim>\<open>epoch_end\<close>,
  \<^verbatim>\<open>eval_start\<close> and \<^verbatim>\<open>eval_end\<close>, and the submission metadata and the upload
  of \<^verbatim>\<open>init\<close>, happen only on global rank zero: on any other global rank the four
  hooks return at once with the callback and the world unchanged, and \<^verbatim>\<open>init\<close>
  logs no point-in-time event and uploads no file artifact. What is logged on every rank
  is the interval starts \<^verbatim>\<open>CACHE_CLEAR\<close> and \<^verbatim>\<open>INIT_START\<close> of \<^verbatim>\<open>init\<close>
  and the \<^verbatim>\<open>INIT_STOP\<close> event of \<^verbatim>\<open>fit_start\<close>: on a global rank other than
  zero \<^verbatim>\<open>init\<close> logs nothing but these two starts and \<^verbatim>\<open>fit_start\<close> returns
  normally having logged \<^verbatim>\<open>INIT_STOP\<close> and nothing else, without an upload; and on
  any rank \<^verbatim>\<open>init\<close> has logged \<^verbatim>\<open>INIT_START\<close> (and \<^verbatim>\<open>CACHE_CLEAR\<close> when
  the callback has a command that clears the cache) and \<^verbatim>\<open>fit_start\<close> has logged
  \<^verbatim>\<open>INIT_STOP\<close> whenever they return normally.
\<close>

theorem only_rank_zero_emits:
  assumes "global_rank e \<noteq> 0"
  shows "epoch_start e cb w st = (None, cb, w)
       \<and> epoch_end e cb w st = (None, cb, w)
       \<and> eval_start e cb w st = (None, cb, w)
       \<and> eval_end e cb w st = (None, cb, w)
       \<and> filter is_event (new_effects w (world_of (init e cb w st))) = []
       \<and> filter is_artifact (new_effects w (world_of (init e cb w st))) = []
       \<and> (\<forall>y\<in>set (new_effects w (world_of (init e cb w st))).
             is_mllog y \<longrightarrow> y = MLLog IntervalStart CACHE_CLEAR PNone None
                          \<or> y = MLLog IntervalStart INIT_START PNone None)
       \<and> exc_of (fit_start e cb w st) = None
       \<and> filter is_mllog (new_effects w (world_of (fit_start e cb w st)))
           = [MLLog PointInTime INIT_STOP PNone None]
       \<and> filter is_artifact (new_effects w (world_of (fit_start e cb w st))) = []
       \<and> (exc_of (init e0 cb w st) = None \<longrightarrow>
            MLLog IntervalStart INIT_START PNone None
              \<in> set (new_effects w (world_of (init e0 cb w st)))
            \<and> (cache_clear_cmd cb \<noteq> None \<longrightarrow>
                  MLLog IntervalStart CACHE_CLEAR PNone None
                    \<in> set (new_effects w (world_of (init e0 cb w st)))))
       \<and> (exc_of (fit_start e0 cb w st) = None \<longrightarrow>
            MLLog PointInTime INIT_STOP PNone None
              \<in> set (new_effects w (world_of (fit_start e0 cb w st))))"
proof -
  have hooks: "epoch_start e cb w st = (None, cb, w)" "epoch_end e cb w st = (None, cb, w)"
    "eval_start e cb w st = (None, cb, w)" "eval_end e cb w st = (None, cb, w)"
    using assms
    by (simp_all add: epoch_start_def epoch_end_def eval_start_def eval_end_def rank_zero_def)
  obtain x w1 where su: "init_setup e cb w = (x, w1)" by (cases "init_setup e cb w")
  from init_setup_effects [of e cb w] su obtain xs where
    xs: "trace w1 = trace w @ xs" "list_all (\<lambda>y. is_makedirs y \<or> is_open_write y \<or> y = Barrier) xs"
    by auto
  from init_after_setup [OF su, of st] assms obtain ys where
    ys: "trace (world_of (init e cb w st)) = trace w1 @ ys"
      "list_all (\<lambda>y. \<not> is_event y \<and> \<not> is_artifact y
              \<and> (is_mllog y \<longrightarrow> y = MLLog IntervalStart CACHE_CLEAR PNone None
                                \<or> y = MLLog IntervalStart INIT_START PNone None)) ys"
    by auto
  have ys': "list_all (\<lambda>y. \<not> is_event y) ys" "list_all (\<lambda>y. \<not> is_artifact y) ys"
    "\<forall>y\<in>set ys. is_mllog y \<longrightarrow> y = MLLog IntervalStart CACHE_CLEAR PNone None
                          \<or> y = MLLog IntervalStart INIT_START PNone None"
    using ys(2) by (induction ys) auto
  have xs': "\<forall>y\<in>set xs. \<not> is_mllog y"
    using setup_kinds(1) [OF xs(2)] by (simp add: list_all_iff)
  have "new_effects w (world_of (init e cb w st)) = xs @ ys"
    using xs(1) ys(1) by (simp add: new_effects_append)
  then have init: "filter is_event (new_effects w (world_of (init e cb w st))) = []"
    "filter is_artifact (new_effects w (world_of (init e cb w st))) = []"
    "\<forall>y\<in>set (new_effects w (world_of (init e cb w st))).
       is_mllog y \<longrightarrow> y = MLLog IntervalStart CACHE_CLEAR PNone None
                    \<or> y = MLLog IntervalStart INIT_START PNone None"
    using setup_kinds [OF xs(2)] ys' xs' by (auto simp: filter_none)
  have fit: "fit_start e cb w st = (None, cb, barrier e (mll_event INIT_STOP PNone None w))"
    using assms by (simp add: fit_start_def rank_zero_def)
  have fit_new: "new_effects w (world_of (fit_start e cb w st))
      = [MLLog PointInTime INIT_STOP PNone None, Barrier]"
    by (simp add: fit new_effects_append mll_event_def)
  have any: "exc_of (fit_start e0 cb w st) = None \<longrightarrow>
      MLLog PointInTime INIT_STOP PNone None \<in> set (new_effects w (world_of (fit_start e0 cb w st)))"
  proof (cases "rank_zero e0")
    case False
    then show ?thesis
      by (simp add: fit_start_def new_effects_def mll_event_def)
  next
    case True
    obtain y w2 where r: "fit_start_rank_zero e0 st w = (y, w2)"
      by (cases "fit_start_rank_zero e0 st w")
    from fit_start_rank_zero_effects [of e0 st w] r obtain zs where "trace w2 = trace w @ zs"
      by auto
    with True r show ?thesis
      by (cases y) (simp_all add: fit_start_def new_effects_def mll_event_def)
  qed
  from hooks init fit fit_new any init_logs_start [of e0 cb w st] show ?thesis by simp
qed

theorem only_rank_zero_emits_witness:
  "global_rank worker_env \<noteq> 0
   \<and> epoch_start worker_env example_callback example_world (example_state 0)
       = (None, example_callback, example_world)
   \<and> eval_end worker_env example_callback example_world (example_state 0.8)
       = (None, example_callback, example_world)
   \<and> filter is_mllog (new_effects example_world
        (world_of (fit_start worker_env example_callback example_world (example_state 0))))
       = [MLLog PointInTime INIT_STOP PNone None]
   \<and> global_rank second_node_env \<noteq> 0
   \<and> exc_of (init second_node_env example_callback example_world (example_state 0)) = None
   \<and> filter is_event (new_effects example_world
        (world_of (init second_node_env example_callback example_world (example_state 0)))) = []
   \<and> filter is_artifact (new_effects example_world
        (world_of (init second_node_env example_callback example_world (example_state 0)))) = []
   \<and> filter is_mllog (new_effects example_world
        (world_of (init second_node_env example_callback example_world (example_state 0))))
       = [MLLog IntervalStart INIT_START PNone None]
   \<and> cache_clear_cmd cache_clearing_callback \<noteq> None
   \<and> exc_of (init second_node_env cache_clearing_callback example_world (example_state 0)) = None
   \<and> filter is_mllog (new_effects example_world
        (world_of (init second_node_env cache_clearing_callback example_world (example_state 0))))
       = [MLLog IntervalStart CACHE_CLEAR PNone None, MLLog IntervalStart INIT_START PNone None]
   \<and> exc_of (fit_start example_env example_callback example_world (example_state 0)) = None
   \<and> MLLog PointInTime INIT_STOP PNone None
       \<in> set (new_effects example_world
            (world_of (fit_start example_env example_callback example_world (example_state 0))))"
proof -
  have rank: "global_rank worker_env \<noteq> 0" "global_rank second_node_env \<noteq> 0"
    by (simp_all add: worker_env_def second_node_env_def example_env_def)
  have ok: "exc_of (fit_start example_env example_callback example_world (example_state 0)) = None"
    by (simp add: fit_start_def fit_start_rank_zero_def rank_zero_def example_env_def
        example_state_def Let_def)
  from only_rank_zero_emits [OF rank(1), where cb = example_callback and w = example_world
      and st = "example_state 0" and ?e0.0 = example_env]
    only_rank_zero_emits [OF rank(1), where cb = example_callback and w = example_world
      and st = "example_state 0.8" and ?e0.0 = example_env]
    only_rank_zero_emits [OF rank(2), where cb = example_callback and w = example_world
      and st = "example_state 0" and ?e0.0 = second_node_env]
    only_rank_zero_emits [OF rank(2), where cb = cache_clearing_callback and w = example_world
      and st = "example_state 0" and ?e0.0 = second_node_env]
    rank ok second_node_init second_node_cache_clearing
  show ?thesis by simp
qed

text \<open>
  Claim C4 as stated fails for \<^verbatim>\<open>init\<close>: the statements that log
  \<^verbatim>\<open>CACHE_CLEAR\<close> and \<^verbatim>\<open>INIT_START\<close> stand before the rank check, so the first
  process of a second node, of global rank eight, logs \<^verbatim>\<open>INIT_START\<close> through the
  MLPerf logger; \<^verbatim>\<open>INIT_STOP\<close> is not the only thing logged on every rank.
\<close>

theorem init_logs_on_every_rank:
  "global_rank second_node_env \<noteq> 0
   \<and> exc_of (init second_node_env example_callback example_world (example_state 0)) = None
   \<and> MLLog IntervalStart INIT_START PNone None
       \<in> set (new_effects example_world
            (world_of (init second_node_env example_callback example_world (example_state 0))))
   \<and> is_mllog (MLLog IntervalStart INIT_START PNone None)"
proof -
  have "MLLog IntervalStart INIT_START PNone None
      \<in> set (filter is_mllog (new_effects example_world
            (world_of (init second_node_env example_callback example_world (example_state 0)))))"
    by (simp only: second_node_init(2)) simp
  moreover have "global_rank second_node_env \<noteq> 0"
    by (simp add: second_node_env_def example_env_def)
  ultimately show ?thesis
    by (simp add: second_node_init(1))
qed

subsection \<open>Paths and folders\<close>

lemma join2_relative: "\<not> startswith_sep b \<Longrightarrow> join2 path b = dir_prefix path @ b"
  by (simp add: join2_def dir_prefix_def)

lemma dir_prefix_after_sep:
  "dir_prefix (y @ ''/'' @ name) = y @ ''/'' @ dir_prefix name"
  by (cases "name = []") (simp_all add: dir_prefix_def)

lemma dir_prefix_plain: "d \<noteq> [] \<Longrightarrow> last d \<noteq> CHR ''/'' \<Longrightarrow> dir_prefix d = d @ ''/''"
  by (simp add: dir_prefix_def)

lemma relative_components:
  "\<not> startswith_sep ''systems''" "\<not> startswith_sep ''results''" "\<not> startswith_sep ''resnet''"
  "\<not> startswith_sep (''result_'' @ i @ ''.txt'')"
  "startswith_sep (name @ ''.json'') = startswith_sep name"
  by (cases name; simp add: startswith_sep_def)+

lemma digit_char_not_sep: "d < 10 \<Longrightarrow> digit_char d \<noteq> CHR ''/''"
proof -
  assume "d < 10"
  then have "d \<in> {0, 1, 2, 3, 4, 5, 6, 7, 8, 9}" by auto
  then show ?thesis
    by (auto simp: digit_char_def)
qed

lemma str_nat_start: "str_nat n \<noteq> [] \<and> hd (str_nat n) \<noteq> CHR ''/''"
proof (induction n rule: str_nat.induct)
  case (1 n)
  show ?case
  proof (cases "n < 10")
    case True
    then show ?thesis
      by (simp add: str_nat.simps [of n] digit_char_not_sep)
  next
    case False
    with 1 show ?thesis
      by (simp add: str_nat.simps [of n])
  qed
qed

lemma str_int_relative: "\<not> startswith_sep (str_int i @ rest)"
  using str_nat_start [of "nat i"] by (simp add: str_int_def startswith_sep_def)

lemma constructed_fields:
  assumes "MLPerfCallback e root_folder' index benchmark' target' division' metric_name'
             metric_label' submitter' system_name' status' cache_clear_cmd' w0 = (Inr cb, w0')"
  shows "root_folder cb = root_folder'" and "benchmark cb = benchmark'"
    and "benchmark' = ''resnet''"
    and "systems_path cb = path_join root_folder' [''systems'', system_name cb @ ''.json'']"
    and "filename cb = path_join root_folder'
           [''results'', system_name cb, benchmark', ''result_'' @ str_int index @ ''.txt'']"
    and "\<forall>n. system_name' = Some n \<longrightarrow> system_name cb = n"
    and "system_name' = None \<longrightarrow> (\<exists>rest. system_name cb = str_int (world_size e) @ rest)"
  using assms
  by (auto simp: MLPerfCallback_def BENCHMARKS_def get_system_description_def Let_def
      update_conv' split: if_splits prod.splits sum.splits option.splits jval.splits)

lemma systems_path_relative:
  assumes "\<not> startswith_sep name"
  shows "path_join rf [''systems'', name @ ''.json'']
           = dir_prefix rf @ ''systems/'' @ name @ ''.json''"
    and "path_join rf [''systems''] = dir_prefix rf @ ''systems''"
  using assms
  by (simp_all add: path_join_def join2_relative relative_components dir_prefix_plain)

lemma filename_relative:
  assumes "\<not> startswith_sep name"
  shows "path_join rf [''results'', name, ''resnet'', ''result_'' @ i @ ''.txt'']
           = dir_prefix rf @ ''results/'' @ dir_prefix name @ ''resnet'' @ ''/result_'' @ i @ ''.txt''"
    and "path_join (path_join rf [''results'', name]) [''resnet'']
           = dir_prefix rf @ ''results/'' @ dir_prefix name @ ''resnet''"
proof -
  have a: "join2 rf ''results'' = dir_prefix rf @ ''results''"
    by (simp add: join2_relative relative_components)
  have b: "join2 (dir_prefix rf @ ''results'') name = dir_prefix rf @ ''results/'' @ name"
    using assms by (simp add: join2_relative dir_prefix_plain)
  have c: "join2 (dir_prefix rf @ ''results/'' @ name) ''resnet''
      = dir_prefix rf @ ''results/'' @ dir_prefix name @ ''resnet''"
    using dir_prefix_after_sep [of "dir_prefix rf @ ''results''" name]
    by (simp add: join2_relative relative_components)
  have d: "join2 (dir_prefix rf @ ''results/'' @ dir_prefix name @ ''resnet'')
        (''result_'' @ i @ ''.txt'')
      = dir_prefix rf @ ''results/'' @ dir_prefix name @ ''resnet'' @ ''/result_'' @ i @ ''.txt''"
    using dir_prefix_plain [of "dir_prefix rf @ ''results/'' @ dir_prefix name @ ''resnet''"]
      relative_components(4) [of i]
    by (simp add: join2_relative)
  show "path_join rf [''results'', name, ''resnet'', ''result_'' @ i @ ''.txt'']
           = dir_prefix rf @ ''results/'' @ dir_prefix name @ ''resnet'' @ ''/result_'' @ i @ ''.txt''"
    by (simp only: path_join_def foldl.simps a b c d)
  show "path_join (path_join rf [''results'', name]) [''resnet'']
           = dir_prefix rf @ ''results/'' @ dir_prefix name @ ''resnet''"
    by (simp only: path_join_def foldl.simps a b c)
qed

lemma before_write_setup:
  assumes "list_all (\<lambda>y. \<not> is_open_write y \<and> \<not> is_makedirs y) ys"
  shows "before_write (setup_effects cb @ ys) = take 5 (setup_effects cb)"
  by (simp add: before_write_def setup_effects_def)

text \<open>
  Claim C5, amended. Let the constructor return a callback, for any root folder, for a
  system name argument that does not start with the separator or for none. A system name
  given as an argument is the callback's system name. The systems file path is
  \<^verbatim>\<open>root_folder/systems/[system_name].json\<close> and the results file path is
  \<^verbatim>\<open>root_folder/results/[system_name]/[benchmark]/result_[index].txt\<close>, where a folder
  is followed by one separator unless it is empty or already ends with one (so for a root
  folder and a system name that are not empty and do not end with the separator, the two
  paths are these very strings). And whenever a call of \<^verbatim>\<open>init\<close> writes a system
  description, it writes this callback's description to the systems file path after
  \<^verbatim>\<open>os.makedirs\<close> completed for \<^verbatim>\<open>root_folder/results/[system_name]/[benchmark]\<close>
  and for \<^verbatim>\<open>root_folder/systems\<close> in the same call.
\<close>

theorem submission_paths:
  assumes "MLPerfCallback e root_folder' index benchmark' target' division' metric_name'
             metric_label' submitter' system_name' status' cache_clear_cmd' w0 = (Inr cb, w0')"
    and "\<forall>n. system_name' = Some n \<longrightarrow> \<not> startswith_sep n"
  shows "(\<forall>n. system_name' = Some n \<longrightarrow> system_name cb = n)
       \<and> systems_path cb = dir_prefix root_folder' @ ''systems/'' @ system_name cb @ ''.json''
       \<and> filename cb = dir_prefix root_folder' @ ''results/'' @ dir_prefix (system_name cb)
                          @ benchmark' @ ''/result_'' @ str_int index @ ''.txt''
       \<and> (root_folder' \<noteq> [] \<and> last root_folder' \<noteq> CHR ''/''
            \<and> system_name cb \<noteq> [] \<and> last (system_name cb) \<noteq> CHR ''/'' \<longrightarrow>
            systems_path cb = root_folder' @ ''/systems/'' @ system_name cb @ ''.json''
            \<and> filename cb = root_folder' @ ''/results/'' @ system_name cb @ ''/'' @ benchmark'
                              @ ''/result_'' @ str_int index @ ''.txt'')
       \<and> ((\<exists>x\<in>set (new_effects w (world_of (init e' cb w st))). is_open_write x) \<longrightarrow>
            Makedirs (dir_prefix root_folder' @ ''results/'' @ dir_prefix (system_name cb)
                        @ benchmark')
              \<in> set (before_write (new_effects w (world_of (init e' cb w st))))
            \<and> Makedirs (dir_prefix root_folder' @ ''systems'')
              \<in> set (before_write (new_effects w (world_of (init e' cb w st))))
            \<and> OpenWrite (systems_path cb) (system_desc cb)
              \<in> set (new_effects w (world_of (init e' cb w st))))"
proof -
  note f = constructed_fields [OF assms(1)]
  have rel: "\<not> startswith_sep (system_name cb)"
  proof (cases system_name')
    case None
    with f(7) obtain rest where "system_name cb = str_int (world_size e) @ rest" by blast
    then show ?thesis by (simp add: str_int_relative)
  next
    case (Some n)
    with f(6) assms(2) show ?thesis by simp
  qed
  have paths: "systems_path cb = dir_prefix root_folder' @ ''systems/'' @ system_name cb @ ''.json''"
    "filename cb = dir_prefix root_folder' @ ''results/'' @ dir_prefix (system_name cb)
                          @ benchmark' @ ''/result_'' @ str_int index @ ''.txt''"
    using f(3,4,5) systems_path_relative(1) [OF rel] filename_relative(1) [OF rel]
    by simp_all
  have plain: "root_folder' \<noteq> [] \<and> last root_folder' \<noteq> CHR ''/''
            \<and> system_name cb \<noteq> [] \<and> last (system_name cb) \<noteq> CHR ''/'' \<longrightarrow>
            systems_path cb = root_folder' @ ''/systems/'' @ system_name cb @ ''.json''
            \<and> filename cb = root_folder' @ ''/results/'' @ system_name cb @ ''/'' @ benchmark'
                              @ ''/result_'' @ str_int index @ ''.txt''"
    by (simp add: paths dir_prefix_def)
  obtain x w1 where su: "init_setup e' cb w = (x, w1)" by (cases "init_setup e' cb w")
  from init_setup_effects [of e' cb w] su obtain xs where
    xs: "trace w1 = trace w @ xs" "(\<exists>y\<in>set xs. is_open_write y) \<longrightarrow> xs = setup_effects cb"
    by auto
  from init_after_setup [OF su, of st] obtain ys where
    ys: "trace (world_of (init e' cb w st)) = trace w1 @ ys"
      "list_all (\<lambda>y. \<not> is_open_write y \<and> \<not> is_makedirs y) ys"
    by auto
  have new: "new_effects w (world_of (init e' cb w st)) = xs @ ys"
    using xs(1) ys(1) by (simp add: new_effects_append)
  have no_ys: "\<not> (\<exists>y\<in>set ys. is_open_write y)"
    using ys(2) by (induction ys) auto
  have order: "(\<exists>x\<in>set (new_effects w (world_of (init e' cb w st))). is_open_write x) \<longrightarrow>
            Makedirs (dir_prefix root_folder' @ ''results/'' @ dir_prefix (system_name cb)
                        @ benchmark')
              \<in> set (before_write (new_effects w (world_of (init e' cb w st))))
            \<and> Makedirs (dir_prefix root_folder' @ ''systems'')
              \<in> set (before_write (new_effects w (world_of (init e' cb w st))))
            \<and> OpenWrite (systems_path cb) (system_desc cb)
              \<in> set (new_effects w (world_of (init e' cb w st)))"
  proof
    assume "\<exists>x\<in>set (new_effects w (world_of (init e' cb w st))). is_open_write x"
    with new no_ys have "\<exists>y\<in>set xs. is_open_write y" by auto
    with xs(2) have eq: "xs = setup_effects cb" by simp
    have mem: "Makedirs (dir_prefix root_folder' @ ''results/'' @ dir_prefix (system_name cb)
                        @ benchmark')
              \<in> set (take 5 (setup_effects cb))
            \<and> Makedirs (dir_prefix root_folder' @ ''systems'') \<in> set (take 5 (setup_effects cb))
            \<and> OpenWrite (systems_path cb) (system_desc cb) \<in> set (setup_effects cb @ ys)"
      using f(1,2,3) systems_path_relative(2) [OF rel] filename_relative(2) [OF rel]
      by (simp add: setup_effects_def)
    show "Makedirs (dir_prefix root_folder' @ ''results/'' @ dir_prefix (system_name cb)
                        @ benchmark')
              \<in> set (before_write (new_effects w (world_of (init e' cb w st))))
            \<and> Makedirs (dir_prefix root_folder' @ ''systems'')
              \<in> set (before_write (new_effects w (world_of (init e' cb w st))))
            \<and> OpenWrite (systems_path cb) (system_desc cb)
              \<in> set (new_effects w (world_of (init e' cb w st)))"
      unfolding new eq before_write_setup [OF ys(2)] by (rule mem)
  qed
  from f(6) paths plain order show ?thesis by blast
qed

lemma constructed: "\<not> isl (fst r) \<Longrightarrow> r = (Inr (projr (fst r)), snd r)"
  by (cases r, cases "fst r") auto

lemma trailing_slash_constructed: "\<not> isl (fst trailing_slash_construction)"
  unfolding trailing_slash_construction_def
  by (simp add: MLPerfCallback_def example_env_def BENCHMARKS_def DIVISIONS_def STATUS_def
      get_system_description_def)

theorem submission_paths_witness:
  "fst example_construction = Inr example_callback
   \<and> \<not> startswith_sep ''dgx''
   \<and> system_name example_callback = ''dgx''
   \<and> systems_path example_callback = ''/submission/systems/dgx.json''
   \<and> filename example_callback = ''/submission/results/dgx/resnet/result_0.txt''
   \<and> (\<exists>x\<in>set (new_effects example_world (world_of initialized)). is_open_write x)
   \<and> Makedirs ''/submission/results/dgx/resnet''
       \<in> set (before_write (new_effects example_world (world_of initialized)))
   \<and> Makedirs ''/submission/systems''
       \<in> set (before_write (new_effects example_world (world_of initialized)))
   \<and> \<not> isl (fst trailing_slash_construction)
   \<and> systems_path (projr (fst trailing_slash_construction)) = ''/submission/systems/dgx.json''
   \<and> filename (projr (fst trailing_slash_construction))
       = ''/submission/results/dgx/resnet/result_0.txt''"
proof -
  have c: "MLPerfCallback example_env ''/submission'' 0 ''resnet'' (Finite 0.759) ''open''
      ''Accuracy'' ''eval'' ''MosaicML'' (Some ''dgx'') ''onprem'' None example_world
      = (Inr example_callback, snd example_construction)"
    unfolding example_construction_def [symmetric]
    using example_callback_eq by (simp add: prod_eq_iff)
  have t: "MLPerfCallback example_env ''/submission/'' 0 ''resnet'' (Finite 0.759) ''open''
      ''Accuracy'' ''eval'' ''MosaicML'' (Some ''dgx'') ''onprem'' None example_world
      = (Inr (projr (fst trailing_slash_construction)), snd trailing_slash_construction)"
    unfolding trailing_slash_construction_def [symmetric]
    by (rule constructed [OF trailing_slash_constructed])
  have w: "\<exists>x\<in>set (new_effects example_world (world_of initialized)). is_open_write x"
    by (simp add: new_effects_def initialized_trace example_world_def)
  have n: "\<forall>n. Some ''dgx'' = Some n \<longrightarrow> \<not> startswith_sep n"
    by (simp add: startswith_sep_def)
  have d: "dir_prefix ''/submission'' = ''/submission/''" "dir_prefix ''/submission/'' = ''/submission/''"
    "dir_prefix ''dgx'' = ''dgx/''" "str_int 0 = ''0''"
    by (simp_all add: dir_prefix_def str_int_def str_nat.simps digit_char_def)
  from submission_paths [OF c n, where e' = example_env and w = example_world
      and st = "example_state 0"]
    submission_paths [OF t n, where e' = example_env and w = example_world
      and st = "example_state 0"]
    w example_callback_eq trailing_slash_constructed
  show ?thesis
    unfolding initialized_def [symmetric]
    by (auto simp: d startswith_sep_def)
qed

text \<open>
  Claim C5 as stated fails for a system name that starts with the separator:
  \<^verbatim>\<open>os.path.join\<close> drops the root folder, so the systems file of the system
  \<^verbatim>\<open>/tmp/dgx\<close> under the root \<^verbatim>\<open>/submission\<close> is \<^verbatim>\<open>/tmp/dgx.json\<close>.
\<close>

theorem system_name_absolute_path:
  "\<not> isl (fst absolute_name_construction)
   \<and> root_folder (projr (fst absolute_name_construction)) = ''/submission''
   \<and> system_name (projr (fst absolute_name_construction)) = ''/tmp/dgx''
   \<and> systems_path (projr (fst absolute_name_construction)) = ''/tmp/dgx.json''
   \<and> startswith_sep ''/tmp/dgx''
   \<and> systems_path (projr (fst absolute_name_construction))
       \<noteq> ''/submission'' @ ''/systems/'' @ ''/tmp/dgx'' @ ''.json''
   \<and> filename (projr (fst absolute_name_construction))
       \<noteq> ''/submission'' @ ''/results/'' @ ''/tmp/dgx'' @ ''/'' @ ''resnet'' @ ''/result_0.txt''
   \<and> filename (projr (fst absolute_name_construction)) = ''/tmp/dgx/resnet/result_0.txt''"
  unfolding absolute_name_construction_def
  by (simp add: MLPerfCallback_def example_env_def BENCHMARKS_def DIVISIONS_def STATUS_def
      get_system_description_def path_join_def join2_def startswith_sep_def str_int_def
      str_nat.simps digit_char_def)

subsection \<open>The system description and the constructor\<close>



text \<open>
  Claim C8. With the MLPerf logging packages available (and a local world size other than
  zero, which the system description divides by), the constructor raises exactly when the
  benchmark is not \<^verbatim>\<open>resnet\<close>, the division is not \<^verbatim>\<open>open\<close> or the status is
  none of \<^verbatim>\<open>onprem\<close>, \<^verbatim>\<open>cloud\<close>, \<^verbatim>\<open>preview\<close>, and what it raises is
  \<^verbatim>\<open>ValueError\<close>; the other arguments never make it raise.
\<close>

theorem constructor_raises_iff:
  assumes "mlperf_available e" and "local_world_size e \<noteq> 0"
  shows "(isl (fst (MLPerfCallback e root_folder' index benchmark' target' division' metric_name'
                metric_label' submitter' system_name' status' cache_clear_cmd' w))
          \<longleftrightarrow> (benchmark' \<noteq> ''resnet'' \<or> division' \<noteq> ''open''
               \<or> status' \<notin> {''onprem'', ''cloud'', ''preview''}))
       \<and> (isl (fst (MLPerfCallback e root_folder' index benchmark' target' division' metric_name'
                metric_label' submitter' system_name' status' cache_clear_cmd' w))
          \<longrightarrow> fst (MLPerfCallback e root_folder' index benchmark' target' division' metric_name'
                metric_label' submitter' system_name' status' cache_clear_cmd' w) = Inl ValueError)"
  using assms
  by (auto simp: MLPerfCallback_def BENCHMARKS_def DIVISIONS_def STATUS_def
      get_system_description_def Let_def update_conv' split: option.splits)

theorem constructor_raises_iff_witness:
  "mlperf_available example_env
   \<and> local_world_size example_env \<noteq> 0
   \<and> \<not> isl (fst example_construction)
   \<and> fst (MLPerfCallback example_env ''/submission'' 0 ''bert'' (Finite 0.759) ''open''
        ''Accuracy'' ''eval'' ''MosaicML'' None ''onprem'' None example_world) = Inl ValueError
   \<and> fst (MLPerfCallback example_env ''/submission'' 0 ''resnet'' (Finite 0.759) ''open''
        ''Accuracy'' ''eval'' ''MosaicML'' None ''retired'' None example_world) = Inl ValueError"
proof -
  have a: "mlperf_available example_env" "local_world_size example_env \<noteq> 0"
    by (simp_all add: example_env_def)
  from constructor_raises_iff [OF a, where benchmark' = "''resnet''" and division' = "''open''"
      and status' = "''onprem''" and root_folder' = "''/submission''" and index = 0
      and target' = "Finite 0.759" and metric_name' = "''Accuracy''" and metric_label' = "''eval''"
      and submitter' = "''MosaicML''" and system_name' = "Some ''dgx''"
      and cache_clear_cmd' = None and w = example_world]
    constructor_raises_iff [OF a, where benchmark' = "''bert''" and division' = "''open''"
      and status' = "''onprem''" and root_folder' = "''/submission''" and index = 0
      and target' = "Finite 0.759" and metric_name' = "''Accuracy''" and metric_label' = "''eval''"
      and submitter' = "''MosaicML''" and system_name' = None
      and cache_clear_cmd' = None and w = example_world]
    constructor_raises_iff [OF a, where benchmark' = "''resnet''" and division' = "''open''"
      and status' = "''retired''" and root_folder' = "''/submission''" and index = 0
      and target' = "Finite 0.759" and metric_name' = "''Accuracy''" and metric_label' = "''eval''"
      and submitter' = "''MosaicML''" and system_name' = None
      and cache_clear_cmd' = None and w = example_world]
    a
  show ?thesis
    unfolding example_construction_def by simp
qed

subsection \<open>Frame and close\<close>

text \<open>
  Claim C7. Every hook returns the callback object it was given, except that
  \<^verbatim>\<open>init\<close> may have changed the file handler field and \<^verbatim>\<open>eval_end\<close> the
  success flag: no other field is changed by \<^verbatim>\<open>init\<close>, \<^verbatim>\<open>fit_start\<close>,
  \<^verbatim>\<open>epoch_start\<close>, \<^verbatim>\<open>epoch_end\<close>, \<^verbatim>\<open>eval_start\<close>,
  \<^verbatim>\<open>eval_end\<close> or \<^verbatim>\<open>close\<close>.
\<close>

theorem hooks_frame:
  "cb_of (init e cb w st) = cb\<lparr>file_handler := file_handler (cb_of (init e cb w st))\<rparr>
   \<and> cb_of (fit_start e cb w st) = cb
   \<and> cb_of (epoch_start e cb w st) = cb
   \<and> cb_of (epoch_end e cb w st) = cb
   \<and> cb_of (eval_start e cb w st) = cb
   \<and> cb_of (eval_end e cb w st) = cb\<lparr>success := success (cb_of (eval_end e cb w st))\<rparr>
   \<and> cb_of (close e cb w st) = cb"
proof -
  have "cb_of (init e cb w st) = cb\<lparr>file_handler := file_handler (cb_of (init e cb w st))\<rparr>"
    by (simp add: init_def Let_def new_FileHandler_def split: prod.splits option.splits)
  moreover have "cb_of (fit_start e cb w st) = cb"
    by (simp add: fit_start_def Let_def split: prod.splits option.splits)
  moreover have "cb_of (epoch_start e cb w st) = cb" "cb_of (epoch_end e cb w st) = cb"
    "cb_of (eval_start e cb w st) = cb"
    by (simp_all add: epoch_start_def epoch_end_def eval_start_def)
  moreover have "cb_of (eval_end e cb w st) = cb\<lparr>success := success (cb_of (eval_end e cb w st))\<rparr>"
    by (simp add: eval_end_def Let_def split: sum.splits)
  moreover have "cb_of (close e cb w st) = cb"
    by (simp add: close_def split: option.splits)
  ultimately show ?thesis by blast
qed

theorem hooks_frame_witness:
  "cb_of (init example_env example_callback example_world (example_state 0))
     = example_callback\<lparr>file_handler := Some 0\<rparr>
   \<and> cb_of (close example_env example_callback example_world (example_state 0))
     = example_callback"
  using hooks_frame [of example_env example_callback example_world "example_state 0"]
    initialized_facts(2)
  unfolding initialized_def by simp

text \<open>
  Claim C10. \<^verbatim>\<open>close\<close> never raises and returns the callback object unchanged; it
  completes no external call, so logs nothing, and leaves the file system and the logger's
  handlers alone. Without a file handler the world is unchanged; with one, the handler
  object is closed.
\<close>

theorem close_never_fails:
  "exc_of (close e cb w st) = None
   \<and> cb_of (close e cb w st) = cb
   \<and> trace (world_of (close e cb w st)) = trace w
   \<and> fs (world_of (close e cb w st)) = fs w
   \<and> mll_handlers (world_of (close e cb w st)) = mll_handlers w
   \<and> (file_handler cb = None \<longrightarrow> world_of (close e cb w st) = w)
   \<and> (\<forall>h ob. file_handler cb = Some h \<and> fh_objs w h = Some ob \<longrightarrow>
         fh_objs (world_of (close e cb w st)) h = Some (ob\<lparr>fh_closed := True\<rparr>))"
  by (auto simp: close_def close_handler_def split: option.splits)

theorem close_never_fails_witness:
  "file_handler example_callback = None
   \<and> world_of (close example_env example_callback example_world (example_state 0))
       = example_world
   \<and> file_handler (cb_of initialized) = Some 0
   \<and> fh_objs (world_of initialized) 0
       = Some \<lparr>fh_path = ''/submission/results/dgx/resnet/result_0.txt'', fh_level = 20,
               fh_closed = False\<rparr>
   \<and> exc_of (close example_env (cb_of initialized) (world_of initialized) (example_state 0)) = None
   \<and> fh_objs (world_of (close example_env (cb_of initialized) (world_of initialized)
         (example_state 0))) 0
       = Some \<lparr>fh_path = ''/submission/results/dgx/resnet/result_0.txt'', fh_level = 20,
               fh_closed = True\<rparr>"
  using close_never_fails [of example_env example_callback example_world "example_state 0"]
    close_never_fails [of example_env "cb_of initialized" "world_of initialized" "example_state 0"]
  by (simp add: example_callback_fields initialized_facts)

end
